theory Spec2Isabelle
  imports Complex_Main "HOL-Library.Char_ord" "HOL-Library.List_Lexorder"
begin

section \<open>Daily Tcorr export: the program \<open>tcorr_export_daily_image.py\<close>\<close>

text \<open>
  The development embeds the function \<open>main\<close> of \<open>tcorr_export_daily_image.py\<close>.
  Python strings are \<open>string\<close>; their comparison operators are the lexicographic order
  on character codes, which is the order of \<open>HOL-Library.List_Lexorder\<close> over
  \<open>HOL-Library.Char_ord\<close>. Python exceptions are values of the type \<open>error\<close>, and a
  computation that may raise returns \<open>error + 'a\<close>. Calls that reach the world outside
  the process (the Earth Engine service, the logger) are recorded, in program order, in
  a list of \<open>event\<close>s.
\<close>

subsection \<open>Exceptions and process exit\<close>

datatype error =
    SystemExit "int option"      \<comment> \<open>\<open>sys.exit(code)\<close>; \<open>sys.exit()\<close> is \<open>SystemExit None\<close>\<close>
  | UnboundLocalError string     \<comment> \<open>a local variable read before its first assignment\<close>
  | IndexError
  | KeyError string
  | ValueError string
  | ZeroDivisionError
  | EEException string           \<comment> \<open>a failed call of the remote service\<close>

text \<open>
  The exit status of the interpreter when \<open>main\<close> is the last call of the script:
  a normal return and \<open>SystemExit\<close> with no code (or code \<open>0\<close>) give status 0,
  \<open>SystemExit n\<close> gives \<open>n\<close>, and any other uncaught exception gives status 1.
\<close>

fun exit_status :: "error + unit \<Rightarrow> int" where
  "exit_status (Inr _) = 0"
| "exit_status (Inl (SystemExit None)) = 0"
| "exit_status (Inl (SystemExit (Some n))) = n"
| "exit_status (Inl _) = 1"

subsection \<open>Strings\<close>

definition lower_case_letters :: string where
  "lower_case_letters = ''abcdefghijklmnopqrstuvwxyz''"

definition upper_case_letters :: string where
  "upper_case_letters = ''ABCDEFGHIJKLMNOPQRSTUVWXYZ''"

text \<open>\<open>str.upper\<close> and \<open>str.lower\<close>, on the ASCII letters (other characters are kept).\<close>

definition upper :: "string \<Rightarrow> string" where
  "upper s = map (\<lambda>c. case map_of (zip lower_case_letters upper_case_letters) c of
                         Some u \<Rightarrow> u | None \<Rightarrow> c) s"

definition lower :: "string \<Rightarrow> string" where
  "lower s = map (\<lambda>c. case map_of (zip upper_case_letters lower_case_letters) c of
                         Some l \<Rightarrow> l | None \<Rightarrow> c) s"

text \<open>\<open>str.split(sep)\<close> for a one-character separator: the result is never empty.\<close>

fun split_on :: "char \<Rightarrow> string \<Rightarrow> string list" where
  "split_on sep [] = [[]]"
| "split_on sep (c # cs) =
     (if c = sep then [] # split_on sep cs
      else (case split_on sep cs of
              [] \<Rightarrow> [[c]]
            | w # ws \<Rightarrow> (c # w) # ws))"

text \<open>\<open>sep.join(parts)\<close>.\<close>

fun join :: "string \<Rightarrow> string list \<Rightarrow> string" where
  "join sep [] = []"
| "join sep [w] = w"
| "join sep (w # v # ws) = w @ sep @ join sep (v # ws)"

text \<open>Decimal digits, zero-padded to a fixed width (\<open>%Y\<close>, \<open>%m\<close>, \<open>%d\<close> of \<open>strftime\<close>).\<close>

definition digit :: "int \<Rightarrow> char" where
  "digit n = ''0123456789'' ! nat (n mod 10)"

definition pad2 :: "int \<Rightarrow> string" where
  "pad2 n = [digit (n div 10), digit n]"

definition pad4 :: "int \<Rightarrow> string" where
  "pad4 n = [digit (n div 1000), digit (n div 100), digit (n div 10), digit n]"

subsection \<open>Dates\<close>

text \<open>
  Every \<open>datetime\<close> of the program is a calendar day at midnight (the result of
  \<open>strptime\<close> with format \<open>%Y-%m-%d\<close>, or such a value advanced by whole days), so a
  \<open>datetime\<close> is its year, month and day.
\<close>

record datetime =
  year :: int
  month :: int
  day :: int

definition is_leap :: "int \<Rightarrow> bool" where
  "is_leap y = (y mod 4 = 0 \<and> (y mod 100 \<noteq> 0 \<or> y mod 400 = 0))"

definition days_before_year :: "int \<Rightarrow> int" where
  "days_before_year y = (y - 1) * 365 + (y - 1) div 4 - (y - 1) div 100 + (y - 1) div 400"

definition days_before_month :: "int \<Rightarrow> int \<Rightarrow> int" where
  "days_before_month y m =
     [0, 31, 59, 90, 120, 151, 181, 212, 243, 273, 304, 334] ! nat (m - 1)
       + (if 2 < m \<and> is_leap y then 1 else 0)"

text \<open>The proleptic Gregorian ordinal of a day (\<open>datetime.toordinal\<close>): 0001-01-01 is day 1.\<close>

definition toordinal :: "datetime \<Rightarrow> int" where
  "toordinal dt = days_before_year (year dt) + days_before_month (year dt) (month dt) + day dt"

text \<open>\<open>(a - b).days\<close> for two midnight datetimes.\<close>

definition days_between :: "datetime \<Rightarrow> datetime \<Rightarrow> int" where
  "days_between a b = toordinal a - toordinal b"

text \<open>\<open>dt.strftime('%Y-%m-%d')\<close> and \<open>dt.strftime('%Y%m%d')\<close>, for a year of four digits.\<close>

definition strftime_iso :: "datetime \<Rightarrow> string" where
  "strftime_iso dt = pad4 (year dt) @ ''-'' @ pad2 (month dt) @ ''-'' @ pad2 (day dt)"

definition strftime_compact :: "datetime \<Rightarrow> string" where
  "strftime_compact dt = pad4 (year dt) @ pad2 (month dt) @ pad2 (day dt)"

subsection \<open>Cycle day\<close>

text \<open>
  The dictionary \<open>cycle_dates\<close>, in the order it is written: the key is the cycle day,
  the value a reference date on that cycle.
\<close>

definition cycle_dates :: "(int \<times> datetime) list" where
  "cycle_dates =
     [(7, \<lparr>year = 1970, month = 1, day = 1\<rparr>),
      (8, \<lparr>year = 1970, month = 1, day = 2\<rparr>),
      (1, \<lparr>year = 1970, month = 1, day = 3\<rparr>),
      (2, \<lparr>year = 1970, month = 1, day = 4\<rparr>),
      (3, \<lparr>year = 1970, month = 1, day = 5\<rparr>),
      (4, \<lparr>year = 1970, month = 1, day = 6\<rparr>),
      (5, \<lparr>year = 1970, month = 1, day = 7\<rparr>),
      (6, \<lparr>year = 1970, month = 1, day = 8\<rparr>)]"

text \<open>\<open>cycle_base_dt = strptime(cycle_dates[1])\<close>; the key 1 is present.\<close>

definition cycle_base_dt :: datetime where
  "cycle_base_dt = (case map_of cycle_dates 1 of
                      Some dt \<Rightarrow> dt
                    | None \<Rightarrow> \<lparr>year = 0, month = 0, day = 0\<rparr>)"

text \<open>The property \<open>cycle_day\<close>: \<open>((export_dt - cycle_base_dt).days % 8) + 1\<close>.\<close>

definition cycle_day :: "datetime \<Rightarrow> int" where
  "cycle_day export_dt = (days_between export_dt cycle_base_dt mod 8) + 1"

subsection \<open>Era-based selection of the Landsat collections\<close>

text \<open>
  Earth Engine collections are descriptions of a computation, built in the client and
  evaluated by the service. The three filtered collections of a date and their merge
  are the constructors of \<open>coll_expr\<close>.
\<close>

datatype coll_expr = L8_coll | L7_coll | L5_coll | Merge coll_expr coll_expr

text \<open>The chain \<open>if export_date < '1999-01-01' ... else\<close> on the string \<open>export_date\<close>.\<close>

definition landsat_coll :: "string \<Rightarrow> coll_expr" where
  "landsat_coll export_date =
     (if export_date < ''1999-01-01'' then L5_coll
      else if export_date \<le> ''2011-12-31'' then Merge L7_coll L5_coll
      else if export_date \<le> ''2013-03-24'' then L7_coll
      else Merge L8_coll L7_coll)"

text \<open>
  The guard under which each branch of that chain is the one taken, in the order of the
  source: the \<open>n\<close>-th branch is taken when its own test holds and no earlier test does.
\<close>

definition era_tests :: "string \<Rightarrow> bool list" where
  "era_tests export_date =
     [export_date < ''1999-01-01'',
      export_date \<le> ''2011-12-31'',
      export_date \<le> ''2013-03-24'',
      True]"

definition era_results :: "coll_expr list" where
  "era_results = [L5_coll, Merge L7_coll L5_coll, L7_coll, Merge L8_coll L7_coll]"

definition era_applies :: "nat \<Rightarrow> string \<Rightarrow> bool" where
  "era_applies n export_date =
     (n < length (era_tests export_date) \<and> era_tests export_date ! n
      \<and> list_all (\<lambda>t. \<not> t) (take n (era_tests export_date)))"

subsection \<open>The configuration\<close>

text \<open>
  The values \<open>main\<close> reads from the parsed INI file. Numeric entries are given as the
  numbers \<open>float(...)\<close> returns; \<open>ini_cell_size\<close> is \<open>None\<close> when the key is absent;
  \<open>ini_months\<close> and \<open>ini_years\<close> are \<open>None\<close> when \<open>utils.parse_int_set\<close> raises.
\<close>

record ini =
  ini_tmax_source :: string
  ini_tdiff_threshold :: real
  ini_start_date :: string
  ini_end_date :: string
  ini_cloud_cover :: real
  ini_export_coll :: string
  ini_export_dest :: string
  ini_export_id_fmt :: string
  ini_cell_size :: "real option"
  ini_min_pixel_count :: real
  ini_months :: "int list option"
  ini_years :: "int list option"

subsection \<open>Rasters, scenes and the remote image service\<close>

text \<open>
  A raster gives every pixel a value or no value (a masked pixel). A scene is one
  Landsat image with the properties the program reads; \<open>geometry\<close> is its footprint.
\<close>

type_synonym pixel = "int \<times> int"
type_synonym raster = "pixel \<Rightarrow> real option"

record scene =
  system_index :: string
  system_time_start :: int
  CLOUD_COVER_LAND :: real
  DATA_TYPE :: string
  SPACECRAFT_ID :: string
  geometry :: "pixel set"

text \<open>
  What the image service holds: the three Landsat collections, the first image of the
  Tmax collection with its footprint, and the external statistical model
  \<open>ssebop.Image.from_landsat_c1_toa(image, tdiff_threshold).tcorr_stats\<close>, a dictionary
  that may lack either key.
\<close>

record service =
  LC08 :: "scene list"
  LE07 :: "scene list"
  LT05 :: "scene list"
  tmax_first :: raster
  tmax_geometry :: "pixel set"
  tcorr_stats :: "real \<Rightarrow> scene \<Rightarrow> (string \<rightharpoonup> real)"
  model_version :: string

text \<open>Milliseconds since 1970-01-01 of a midnight datetime (\<open>ee.Date(...).millis()\<close>).\<close>

definition millis :: "datetime \<Rightarrow> int" where
  "millis dt = (toordinal dt - 719163) * 86400000"

text \<open>\<open>tmax_mask = ee.Image(tmax_coll.first()).select([0]).multiply(0)\<close>.\<close>

definition tmax_mask :: "service \<Rightarrow> raster" where
  "tmax_mask svc = (\<lambda>p. map_option (\<lambda>v. v * 0) (tmax_first svc p))"

text \<open>
  \<open>image.updateMask(m)\<close> for a constant mask \<open>m\<close>: a pixel stays valid only where the
  mask is not zero.
\<close>

definition updateMask :: "raster \<Rightarrow> real \<Rightarrow> raster" where
  "updateMask r m = (\<lambda>p. if m = 0 then None else r p)"

text \<open>The filters every collection gets (lines 235 to 256), then the one of its own.\<close>

definition common_filter :: "service \<Rightarrow> ini \<Rightarrow> datetime \<Rightarrow> scene \<Rightarrow> bool" where
  "common_filter svc cfg export_dt s =
     (millis export_dt \<le> system_time_start s
      \<and> system_time_start s < millis export_dt + 86400000
      \<and> geometry s \<inter> tmax_geometry svc \<noteq> {}
      \<and> CLOUD_COVER_LAND s < ini_cloud_cover cfg
      \<and> DATA_TYPE s = ''L1TP'')"

definition l8_coll :: "service \<Rightarrow> ini \<Rightarrow> datetime \<Rightarrow> scene list" where
  "l8_coll svc cfg export_dt =
     filter (\<lambda>s. millis \<lparr>year = 2013, month = 3, day = 24\<rparr> < system_time_start s)
       (filter (common_filter svc cfg export_dt) (LC08 svc))"

definition l7_coll :: "service \<Rightarrow> ini \<Rightarrow> datetime \<Rightarrow> scene list" where
  "l7_coll svc cfg export_dt = filter (common_filter svc cfg export_dt) (LE07 svc)"

definition l5_coll :: "service \<Rightarrow> ini \<Rightarrow> datetime \<Rightarrow> scene list" where
  "l5_coll svc cfg export_dt =
     filter (\<lambda>s. system_time_start s < millis \<lparr>year = 2011, month = 12, day = 31\<rparr>)
       (filter (common_filter svc cfg export_dt) (LT05 svc))"

text \<open>
  \<open>a.merge(b)\<close> puts the elements of \<open>a\<close> before those of \<open>b\<close> and prefixes their
  \<open>system:index\<close> with \<open>1_\<close> and \<open>2_\<close>.
\<close>

definition merge :: "scene list \<Rightarrow> scene list \<Rightarrow> scene list" where
  "merge a b =
     map (\<lambda>s. s\<lparr>system_index := ''1_'' @ system_index s\<rparr>) a
     @ map (\<lambda>s. s\<lparr>system_index := ''2_'' @ system_index s\<rparr>) b"

fun eval_coll :: "service \<Rightarrow> ini \<Rightarrow> datetime \<Rightarrow> coll_expr \<Rightarrow> scene list" where
  "eval_coll svc cfg dt L8_coll = l8_coll svc cfg dt"
| "eval_coll svc cfg dt L7_coll = l7_coll svc cfg dt"
| "eval_coll svc cfg dt L5_coll = l5_coll svc cfg dt"
| "eval_coll svc cfg dt (Merge a b) = merge (eval_coll svc cfg dt a) (eval_coll svc cfg dt b)"

subsection \<open>Scene corrector: \<open>tcorr_img_func\<close>\<close>

text \<open>Sequencing of computations that may raise: the first exception is the result.\<close>

definition bind_err :: "error + 'a \<Rightarrow> ('a \<Rightarrow> error + 'b) \<Rightarrow> error + 'b" where
  "bind_err m f = (case m of Inl e \<Rightarrow> Inl e | Inr x \<Rightarrow> f x)"

text \<open>
  \<open>ee.Dictionary(d).combine(defaults, overwrite=False)\<close>: the keys of both, and on a
  key of both the value of \<open>d\<close>.
\<close>

definition combine_no_overwrite ::
  "(string \<rightharpoonup> real) \<Rightarrow> (string \<times> real) list \<Rightarrow> (string \<rightharpoonup> real)" where
  "combine_no_overwrite d defaults =
     (\<lambda>k. case d k of Some v \<Rightarrow> Some v | None \<Rightarrow> map_of defaults k)"

text \<open>\<open>dict.get(key)\<close> and \<open>list.get(i)\<close> of the service fail on a missing entry.\<close>

definition dict_get :: "(string \<rightharpoonup> real) \<Rightarrow> string \<Rightarrow> error + real" where
  "dict_get d k = (case d k of None \<Rightarrow> Inl (EEException ''Dictionary.get'') | Some v \<Rightarrow> Inr v)"

definition list_get :: "'a list \<Rightarrow> nat \<Rightarrow> error + 'a" where
  "list_get xs i = (if i < length xs then Inr (xs ! i) else Inl (EEException ''List.get''))"

text \<open>\<open>list.slice(-n)\<close>: the last \<open>n\<close> elements, or the whole list when it is shorter.\<close>

definition slice_last :: "nat \<Rightarrow> 'a list \<Rightarrow> 'a list" where
  "slice_last n xs = drop (length xs - n) xs"

text \<open>\<open>string.slice(start, stop)\<close> for \<open>0 \<le> start \<le> stop\<close>: positions \<open>start\<close> to \<open>stop - 1\<close>.\<close>

definition string_slice :: "string \<Rightarrow> nat \<Rightarrow> nat \<Rightarrow> string" where
  "string_slice s start stop = take (stop - start) (drop start s)"

text \<open>Lines 291 to 296: the merged collection indices are removed from \<open>system:index\<close>.\<close>

definition scene_id_of :: "string \<Rightarrow> error + string" where
  "scene_id_of index =
     (let parts = slice_last 3 (split_on CHR ''_'' index) in
      bind_err (list_get parts 0) (\<lambda>p0.
      bind_err (list_get parts 1) (\<lambda>p1.
      bind_err (list_get parts 2) (\<lambda>p2.
        Inr (p0 @ ''_'' @ p1 @ ''_'' @ p2)))))"

record tcorr_image =
  tc_raster :: raster
  tc_time_start :: int
  tc_scene_id :: string
  tc_wrs2_tile :: string
  tc_spacecraft_id :: string
  tc_tcorr :: real
  tc_count :: real

definition tcorr_img_func :: "service \<Rightarrow> ini \<Rightarrow> scene \<Rightarrow> error + tcorr_image" where
  "tcorr_img_func svc cfg img =
     (let t_stats = combine_no_overwrite (tcorr_stats svc (ini_tdiff_threshold cfg) img)
                      [(''tcorr_p5'', 0), (''tcorr_count'', 0)] in
      bind_err (dict_get t_stats ''tcorr_p5'') (\<lambda>tcorr_v.
      bind_err (dict_get t_stats ''tcorr_count'') (\<lambda>count_v.
      bind_err (scene_id_of (system_index img)) (\<lambda>scene_id.
        Inr \<lparr>tc_raster = (\<lambda>p. if p \<in> geometry img
                               then map_option (\<lambda>v. v + tcorr_v) (tmax_mask svc p) else None),
             tc_time_start = system_time_start img,
             tc_scene_id = scene_id,
             tc_wrs2_tile = string_slice scene_id 5 11,
             tc_spacecraft_id = SPACECRAFT_ID img,
             tc_tcorr = tcorr_v,
             tc_count = count_v\<rparr>))))"

text \<open>\<open>collection.map(f)\<close>: the images in order; the first failure fails the whole map.\<close>

fun map_coll :: "('a \<Rightarrow> error + 'b) \<Rightarrow> 'a list \<Rightarrow> error + 'b list" where
  "map_coll f [] = Inr []"
| "map_coll f (x # xs) =
     bind_err (f x) (\<lambda>y. bind_err (map_coll f xs) (\<lambda>ys. Inr (y # ys)))"

text \<open>
  Lines 321 to 323: the corrections of a date, those kept by
  \<open>filterMetadata('count', 'not_less_than', min_pixel_count)\<close>.
\<close>

definition tcorr_img_coll :: "service \<Rightarrow> ini \<Rightarrow> datetime \<Rightarrow> error + tcorr_image list" where
  "tcorr_img_coll svc cfg export_dt =
     bind_err (map_coll (tcorr_img_func svc cfg)
                 (eval_coll svc cfg export_dt (landsat_coll (strftime_iso export_dt))))
       (\<lambda>imgs. Inr (filter (\<lambda>i. \<not> tc_count i < ini_min_pixel_count cfg) imgs))"

subsection \<open>Daily aggregator\<close>

text \<open>\<open>collection.mean()\<close>: at each pixel the mean of the images that are valid there.\<close>

definition coll_mean :: "tcorr_image list \<Rightarrow> raster" where
  "coll_mean coll =
     (\<lambda>p. let vs = concat (map (\<lambda>i. case tc_raster i p of None \<Rightarrow> [] | Some v \<Rightarrow> [v]) coll)
          in if vs = [] then None else Some (sum_list vs / real (length vs)))"

text \<open>
  \<open>unique_properties\<close>: the keys of \<open>aggregate_histogram(property)\<close>, which are the
  distinct values of the property in sorted order, joined with commas.
\<close>

definition unique_properties :: "tcorr_image list \<Rightarrow> (tcorr_image \<Rightarrow> string) \<Rightarrow> string" where
  "unique_properties coll property = join '','' (sort (remdups (map property coll)))"

record daily_image =
  di_raster :: raster
  di_time_start :: int
  di_date_ingested :: string
  di_date :: string
  di_year :: int
  di_month :: int
  di_day :: int
  di_doy :: int
  di_cycle_day :: int
  di_landsat :: string
  di_model_name :: string
  di_model_version :: string
  di_tmax_source :: string
  di_tmax_version :: string
  di_wrs2_tiles :: string

text \<open>
  Lines 330 to 379: the image of a date, from the corrections that survive. The time
  stamp \<open>utils.millis(export_dt)\<close> is taken to be \<open>millis export_dt\<close>.
\<close>

definition tcorr_img ::
  "service \<Rightarrow> ini \<Rightarrow> string \<Rightarrow> string \<Rightarrow> datetime \<Rightarrow> datetime \<Rightarrow> error + daily_image" where
  "tcorr_img svc cfg tmax_source tmax_version today export_dt =
     bind_err (tcorr_img_coll svc cfg export_dt) (\<lambda>coll.
       Inr \<lparr>di_raster = (if 0 < length coll then coll_mean coll
                         else updateMask (tmax_mask svc) 0),
            di_time_start = millis export_dt,
            di_date_ingested = strftime_iso today,
            di_date = strftime_iso export_dt,
            di_year = year export_dt,
            di_month = month export_dt,
            di_day = day export_dt,
            di_doy = days_before_month (year export_dt) (month export_dt) + day export_dt,
            di_cycle_day = cycle_day export_dt,
            di_landsat = [] @ unique_properties coll tc_spacecraft_id,
            di_model_name = ''SSEBOP'',
            di_model_version = model_version svc,
            di_tmax_source = upper tmax_source,
            di_tmax_version = upper tmax_version,
            di_wrs2_tiles = [] @ unique_properties coll tc_wrs2_tile\<rparr>)"

subsection \<open>Effects: log records and calls of the remote service\<close>

datatype level = INFO | WARNING | ERROR

text \<open>The export task built at lines 386 to 393.\<close>

record export_task =
  description :: string
  assetId :: string
  crs :: string
  crsTransform :: "real list"
  dimensions :: "int \<times> int"

datatype event =
    Log level string
  | Initialize "string option"     \<comment> \<open>\<open>ee.Initialize\<close>, with the key file when one is given\<close>
  | GetInfo string                 \<comment> \<open>\<open>getInfo()\<close> on the Tmax mask\<close>
  | GetAssets string               \<comment> \<open>\<open>utils.get_ee_assets(collection id)\<close>\<close>
  | GetTasks                       \<comment> \<open>\<open>utils.get_ee_tasks()\<close>\<close>
  | CancelTask string              \<comment> \<open>\<open>ee.data.cancelTask(task id)\<close>\<close>
  | DeleteAsset string             \<comment> \<open>\<open>ee.data.deleteAsset(asset id)\<close>\<close>
  | StartTask export_task          \<comment> \<open>\<open>utils.ee_task_start(task)\<close>\<close>
  | DelayTask real                 \<comment> \<open>\<open>utils.delay_task(delay)\<close>\<close>

fun is_log :: "event \<Rightarrow> bool" where
  "is_log (Log l m) = True"
| "is_log _ = False"

fun is_submit :: "event \<Rightarrow> bool" where
  "is_submit (StartTask t) = True"
| "is_submit _ = False"

text \<open>The calls that change what the remote store holds.\<close>

fun is_mutation :: "event \<Rightarrow> bool" where
  "is_mutation (CancelTask h) = True"
| "is_mutation (DeleteAsset a) = True"
| "is_mutation (StartTask t) = True"
| "is_mutation _ = False"

text \<open>
  What the process sees of the world: the image service, the answers of the remote
  store to the listings made before the loop, the current day, and which remote calls
  fail. A remote call that fails raises.
\<close>

record world =
  w_service :: service
  w_tmax_crs :: string
  w_tmax_transform :: "real \<times> real \<times> real \<times> real \<times> real \<times> real"
  w_tmax_dimensions :: "int \<times> int"
  w_assets :: "string \<Rightarrow> string list"
  w_tasks :: "string \<rightharpoonup> string"
  w_today :: datetime
  w_fails :: "event \<Rightarrow> bool"

text \<open>
  A step of the program: the events it performed, in order, and its result or the
  exception that ended it. \<open>then_step\<close> runs a second step after a first one that
  returned; an exception of the first ends both.
\<close>

type_synonym 'a step = "event list \<times> (error + 'a)"

definition ret :: "'a \<Rightarrow> 'a step" where
  "ret x = ([], Inr x)"

definition raise :: "error \<Rightarrow> 'a step" where
  "raise e = ([], Inl e)"

definition emit :: "event \<Rightarrow> unit step" where
  "emit ev = ([ev], Inr ())"

definition lift :: "error + 'a \<Rightarrow> 'a step" where
  "lift r = ([], r)"

definition remote :: "world \<Rightarrow> event \<Rightarrow> unit step" where
  "remote w ev = ([ev], if w_fails w ev then Inl (EEException ''remote call failed'') else Inr ())"

definition then_step :: "'a step \<Rightarrow> ('a \<Rightarrow> 'b step) \<Rightarrow> 'b step" where
  "then_step m f =
     (case snd m of
        Inl e \<Rightarrow> (fst m, Inl e)
      | Inr x \<Rightarrow> (fst m @ fst (f x), snd (f x)))"

text \<open>
  Reading a local variable of \<open>main\<close>: a local that has not been assigned yet is
  \<open>None\<close>, and reading it raises \<open>UnboundLocalError\<close>.
\<close>

definition read_local :: "string \<Rightarrow> 'a option \<Rightarrow> 'a step" where
  "read_local name v = (case v of None \<Rightarrow> raise (UnboundLocalError name) | Some x \<Rightarrow> ret x)"

subsection \<open>The helpers of the module \<open>utils\<close>\<close>

text \<open>
  Modelled from the spec: \<open>utils.get_ee_assets\<close> is not part of the sources. Section 6
  has \<open>listArtifacts(collectionId)\<close>, the identifiers of the artifacts of a collection;
  it is one call of the remote store, and section 7 lets its failure propagate.
\<close>

definition get_ee_assets :: "world \<Rightarrow> string \<Rightarrow> string list step" where
  "get_ee_assets w coll_id = then_step (remote w (GetAssets coll_id)) (\<lambda>_. ret (w_assets w coll_id))"

text \<open>
  Modelled from the spec: \<open>utils.get_ee_tasks\<close> is not part of the sources. Section 6
  has \<open>listPendingJobs()\<close>, a mapping from job name to job handle; it is one call of
  the remote store, and section 7 lets its failure propagate.
\<close>

definition get_ee_tasks :: "world \<Rightarrow> (string \<rightharpoonup> string) step" where
  "get_ee_tasks w = then_step (remote w GetTasks) (\<lambda>_. ret (w_tasks w))"

text \<open>
  Modelled from the spec: \<open>utils.ee_task_start\<close> is not part of the sources. Section 4.6
  has the submission issue one remote creation call, and section 7 lets its failure
  propagate.
\<close>

definition ee_task_start :: "world \<Rightarrow> export_task \<Rightarrow> unit step" where
  "ee_task_start w task = remote w (StartTask task)"

text \<open>
  Modelled from the spec: \<open>utils.delay_task\<close> is not part of the sources. Section 4.6
  has a fixed delay after the submission, before the next date.
\<close>

definition delay_task :: "real \<Rightarrow> unit step" where
  "delay_task seconds = emit (DelayTask seconds)"

subsection \<open>Helpers of the standard library\<close>

text \<open>
  \<open>fmt.format(**kw)\<close> for replacement fields that are a bare keyword name, with the
  escapes \<open>{{\<close> and \<open>}}\<close>; conversions and format specifications are not covered.
\<close>

function format_named :: "(string \<times> string) list \<Rightarrow> string \<Rightarrow> error + string" where
  "format_named kw [] = Inr []"
| "format_named kw (c # cs) =
     (if c = CHR ''{'' \<and> cs \<noteq> [] \<and> hd cs = CHR ''{''
        then bind_err (format_named kw (tl cs)) (\<lambda>r. Inr (CHR ''{'' # r))
      else if c = CHR ''}'' \<and> cs \<noteq> [] \<and> hd cs = CHR ''}''
        then bind_err (format_named kw (tl cs)) (\<lambda>r. Inr (CHR ''}'' # r))
      else if c = CHR ''}''
        then Inl (ValueError ''Single } encountered in format string'')
      else if c = CHR ''{''
        then (if dropWhile (\<lambda>x. x \<noteq> CHR ''}'') cs = []
                then Inl (ValueError ''expected } before end of string'')
              else (case map_of kw (takeWhile (\<lambda>x. x \<noteq> CHR ''}'') cs) of
                      None \<Rightarrow> Inl (KeyError (takeWhile (\<lambda>x. x \<noteq> CHR ''}'') cs))
                    | Some v \<Rightarrow>
                        bind_err (format_named kw (tl (dropWhile (\<lambda>x. x \<noteq> CHR ''}'') cs)))
                          (\<lambda>r. Inr (v @ r))))
      else bind_err (format_named kw cs) (\<lambda>r. Inr (c # r)))"
  by pat_completeness auto
termination
proof (relation "measure (\<lambda>(kw, s). length s)")
  show "wf (measure (\<lambda>(kw, s). length s))" by simp
next
  fix kw :: "(string \<times> string) list" and c :: char and cs :: string
  show "((kw, tl cs), (kw, c # cs)) \<in> measure (\<lambda>(kw, s). length s)" by simp
  show "((kw, tl cs), (kw, c # cs)) \<in> measure (\<lambda>(kw, s). length s)" by simp
  show "((kw, tl (dropWhile (\<lambda>x. x \<noteq> CHR ''}'') cs)), (kw, c # cs))
          \<in> measure (\<lambda>(kw, s). length s)"
    using length_dropWhile_le [of "\<lambda>x. x \<noteq> CHR ''}''" cs] by simp
  show "((kw, cs), (kw, c # cs)) \<in> measure (\<lambda>(kw, s). length s)" by simp
qed

text \<open>\<open>s.split('_', 1)\<close>: the part before the first underscore and, if there is one, the rest.\<close>

definition split_first :: "string \<Rightarrow> string list" where
  "split_first s =
     (case dropWhile (\<lambda>x. x \<noteq> CHR ''_'') s of
        [] \<Rightarrow> [s]
      | u # r \<Rightarrow> [takeWhile (\<lambda>x. x \<noteq> CHR ''_'') s, r])"

text \<open>Python's \<open>xs[i]\<close> for \<open>i \<ge> 0\<close>.\<close>

definition index :: "'a list \<Rightarrow> nat \<Rightarrow> error + 'a" where
  "index xs i = (if i < length xs then Inr (xs ! i) else Inl IndexError)"

text \<open>
  \<open>datetime.strptime(s, '%Y-%m-%d')\<close> on the zero-padded form \<open>YYYY-MM-DD\<close>; any other
  string is rejected here (Python also accepts a month or day of one digit).
\<close>

definition parse_digits :: "string \<Rightarrow> int option" where
  "parse_digits s =
     (if s \<noteq> [] \<and> list_all (\<lambda>c. c \<in> set ''0123456789'') s
      then Some (foldl (\<lambda>n c. 10 * n + int (length (takeWhile (\<lambda>x. x \<noteq> c) ''0123456789''))) 0 s)
      else None)"

definition days_in_month :: "int \<Rightarrow> int \<Rightarrow> int" where
  "days_in_month y m =
     (if m = 2 \<and> is_leap y then 29
      else [31, 28, 31, 30, 31, 30, 31, 31, 30, 31, 30, 31] ! nat (m - 1))"

definition strptime :: "string \<Rightarrow> error + datetime" where
  "strptime s =
     (if length s = 10 \<and> s ! 4 = CHR ''-'' \<and> s ! 7 = CHR ''-'' then
        (case (parse_digits (take 4 s), parse_digits (take 2 (drop 5 s)), parse_digits (drop 8 s)) of
           (Some y, Some m, Some d) \<Rightarrow>
             (if 1 \<le> y \<and> 1 \<le> m \<and> m \<le> 12 \<and> 1 \<le> d \<and> d \<le> days_in_month y m
              then Inr \<lparr>year = y, month = m, day = d\<rparr>
              else Inl (ValueError ''strptime''))
         | _ \<Rightarrow> Inl (ValueError ''strptime''))
      else Inl (ValueError ''strptime''))"

text \<open>\<open>dt + datetime.timedelta(days=1)\<close>.\<close>

definition next_day :: "datetime \<Rightarrow> datetime" where
  "next_day dt =
     (if day dt < days_in_month (year dt) (month dt) then dt\<lparr>day := day dt + 1\<rparr>
      else if month dt < 12 then dt\<lparr>month := month dt + 1, day := 1\<rparr>
      else \<lparr>year = year dt + 1, month = 1, day = 1\<rparr>)"

fun days_from :: "nat \<Rightarrow> datetime \<Rightarrow> datetime list" where
  "days_from 0 dt = []"
| "days_from (Suc n) dt = dt # days_from n (next_day dt)"

text \<open>
  Modelled from the spec: \<open>utils.date_range\<close> is not part of the sources. The Calendar
  enumerates the dates from \<open>start\<close> to \<open>end\<close>, both included, increasing by one day.
\<close>

definition date_range :: "datetime \<Rightarrow> datetime \<Rightarrow> datetime list" where
  "date_range start_dt end_dt = days_from (nat (days_between end_dt start_dt + 1)) start_dt"

subsection \<open>The date loop of \<open>main\<close>\<close>

text \<open>
  The local variables of \<open>main\<close> that the loop reads, under their names in the source
  (\<open>overwrite_flag\<close> and \<open>delay\<close> are parameters of \<open>main\<close>). \<open>asset_list\<close> and \<open>tasks\<close>
  are the listings fetched once before the loop.
\<close>

record locals =
  overwrite_flag :: bool
  delay :: real
  tmax_name :: string
  tcorr_daily_coll_id :: string
  export_crs :: string
  export_geo :: "real list"
  export_shape :: "int \<times> int"
  asset_list :: "string list"
  tasks :: "string \<rightharpoonup> string"
  month_list :: "int list"
  year_list :: "int list"

text \<open>Lines 200 to 204 and 209 to 210: the identifiers of a date.\<close>

definition export_id_of :: "ini \<Rightarrow> locals \<Rightarrow> datetime \<Rightarrow> error + string" where
  "export_id_of cfg l export_dt =
     format_named
       [(''product'', lower (tmax_name l)),
        (''date'', strftime_compact export_dt),
        (''export'', lower (ini_export_dest cfg))]
       (ini_export_id_fmt cfg)"

definition asset_id_of :: "locals \<Rightarrow> datetime \<Rightarrow> string" where
  "asset_id_of l export_dt = tcorr_daily_coll_id l @ ''/'' @ strftime_compact export_dt"

datatype decision = Skip | Submit

text \<open>
  Lines 213 to 230. \<open>asset_id\<close> is \<open>None\<close> when the assignment at line 209 has not run.
  With \<open>overwrite_flag\<close> the two tests are separate statements; without it the second
  is an \<open>elif\<close>, and either one ends the iteration (\<open>continue\<close>).
\<close>

definition reconcile :: "world \<Rightarrow> ini \<Rightarrow> locals \<Rightarrow> string \<Rightarrow> string option \<Rightarrow> decision step" where
  "reconcile w cfg l export_id asset_id =
     (if overwrite_flag l then
        then_step
          (case tasks l export_id of
             Some task_id \<Rightarrow> remote w (CancelTask task_id)
           | None \<Rightarrow> ret ())
          (\<lambda>_. then_step
             (if upper (ini_export_dest cfg) = ''ASSET''
              then then_step (read_local ''asset_id'' asset_id)
                     (\<lambda>a. if a \<in> set (asset_list l) then remote w (DeleteAsset a) else ret ())
              else ret ())
             (\<lambda>_. ret Submit))
      else
        (if export_id \<in> dom (tasks l) then ret Skip
         else if upper (ini_export_dest cfg) = ''ASSET''
           then then_step (read_local ''asset_id'' asset_id)
                  (\<lambda>a. if a \<in> set (asset_list l) then ret Skip else ret Submit)
         else ret Submit))"

text \<open>Lines 384 to 398: the export task is started, then the pause.\<close>

definition submit :: "world \<Rightarrow> ini \<Rightarrow> locals \<Rightarrow> string \<Rightarrow> string option \<Rightarrow> unit step" where
  "submit w cfg l export_id asset_id =
     then_step
       (if ini_export_dest cfg = ''ASSET''
        then then_step (read_local ''asset_id'' asset_id)
               (\<lambda>a. ee_task_start w \<lparr>description = export_id, assetId = a,
                                       crs = export_crs l, crsTransform = export_geo l,
                                       dimensions = export_shape l\<rparr>)
        else ret ())
       (\<lambda>_. delay_task (delay l))"

text \<open>
  One iteration of the loop, lines 186 to 399. The Earth Engine objects built at lines
  232 to 379 are descriptions only (their value is \<open>tcorr_img\<close>); building them calls
  nothing. Log records of level \<open>DEBUG\<close> are not traced.
\<close>

definition process_date :: "world \<Rightarrow> ini \<Rightarrow> locals \<Rightarrow> datetime \<Rightarrow> unit step" where
  "process_date w cfg l export_dt =
     (let export_date = strftime_iso export_dt in
      if (month_list l \<noteq> [] \<and> month export_dt \<notin> set (month_list l))
         \<or> (year_list l \<noteq> [] \<and> year export_dt \<notin> set (year_list l))
      then ret ()
      else then_step (emit (Log INFO (''Date: '' @ export_date)))
        (\<lambda>_. if strftime_iso (w_today w) \<le> export_date
               then emit (Log INFO ''  Unsupported date, skipping'')
             else if export_date < ''1984-03-23''
               then emit (Log INFO ''  No Landsat 5+ images before 1984-03-16, skipping'')
             else then_step (lift (export_id_of cfg l export_dt))
               (\<lambda>export_id.
                  let asset_id = (if ini_export_dest cfg = ''ASSET''
                                  then Some (asset_id_of l export_dt) else None)
                  in then_step (reconcile w cfg l export_id asset_id)
                       (\<lambda>d. case d of
                               Skip \<Rightarrow> ret ()
                             | Submit \<Rightarrow> submit w cfg l export_id asset_id))))"

text \<open>The \<open>for\<close> loop: an exception raised in an iteration leaves the loop.\<close>

fun date_loop :: "world \<Rightarrow> ini \<Rightarrow> locals \<Rightarrow> datetime list \<Rightarrow> unit step" where
  "date_loop w cfg l [] = ret ()"
| "date_loop w cfg l (export_dt # rest) =
     then_step (process_date w cfg l export_dt) (\<lambda>_. date_loop w cfg l rest)"

subsection \<open>The function \<open>main\<close>\<close>

text \<open>Lines 43 to 53: the availability of the Tmax source.\<close>

definition check_tmax_source :: "ini \<Rightarrow> unit step" where
  "check_tmax_source cfg =
     (if upper (ini_tmax_source cfg) = ''CIMIS'' \<and> ini_end_date cfg < ''2003-10-01''
        then then_step
               (emit (Log ERROR ''CIMIS is not currently available before 2003-10-01, exiting''))
               (\<lambda>_. raise (SystemExit None))
      else if upper (ini_tmax_source cfg) = ''DAYMET'' \<and> ''2017-12-31'' < ini_end_date cfg
        then emit (Log WARNING
               ''DAYMET is not currently available past 2017-12-31, using median Tmax values'')
      else ret ())"

text \<open>Lines 61 to 67.\<close>

definition initialize :: "world \<Rightarrow> string option \<Rightarrow> unit step" where
  "initialize w key =
     then_step (emit (Log INFO ''Initializing Earth Engine''))
       (\<lambda>_. case key of
               Some k \<Rightarrow> then_step (emit (Log INFO (''  Using service account key file: '' @ k)))
                           (\<lambda>_. remote w (Initialize (Some k)))
             | None \<Rightarrow> remote w (Initialize None))"

text \<open>Lines 105 to 115: the export grid for a cell size set in the INI file.\<close>

definition custom_cell_size ::
  "ini \<Rightarrow> real \<times> real \<times> real \<times> real \<times> real \<times> real \<Rightarrow> int \<times> int
     \<Rightarrow> (real list \<times> (int \<times> int)) step" where
  "custom_cell_size cfg geo shape =
     (case geo of (g0, g1, g2, g3, g4, g5) \<Rightarrow>
      case ini_cell_size cfg of
        None \<Rightarrow> ret ([g0, g1, g2, g3, g4, g5], shape)
      | Some export_cs \<Rightarrow>
          if export_cs = 0 then raise ZeroDivisionError
          else ret ([export_cs, 0, g2, 0, - export_cs, g5],
                    (\<lceil>\<bar>(real_of_int (fst shape) * g0) / export_cs\<bar>\<rceil>,
                     \<lceil>\<bar>(real_of_int (snd shape) * g4) / export_cs\<bar>\<rceil>)))"

text \<open>Lines 132 to 144: the months and years to process.\<close>

definition month_list_of :: "ini \<Rightarrow> int list step" where
  "month_list_of cfg =
     (case ini_months cfg of
        Some ms \<Rightarrow> ret (sort (remdups ms))
      | None \<Rightarrow> then_step
                  (emit (Log INFO ''TCORR months parameter not set in the INI, Defaulting to all months (1-12)''))
                  (\<lambda>_. ret [1, 2, 3, 4, 5, 6, 7, 8, 9, 10, 11, 12]))"

definition year_list_of :: "ini \<Rightarrow> int list step" where
  "year_list_of cfg =
     (case ini_years cfg of
        Some ys \<Rightarrow> ret (sort (remdups ys))
      | None \<Rightarrow> then_step
                  (emit (Log INFO ''TCORR years parameter not set in the INI, Defaulting to all available years''))
                  (\<lambda>_. ret []))"

text \<open>
  Lines 73 to 399, for a given value of \<open>tcorr_daily_coll_id\<close>. The local \<open>tmax_name\<close>
  gets its value here, at line 75.
\<close>

definition main_from_line_73 ::
  "world \<Rightarrow> ini \<Rightarrow> bool \<Rightarrow> real \<Rightarrow> string \<Rightarrow> unit step" where
  "main_from_line_73 w cfg overwrite delay_s coll_id =
     (let tmax_name_v = ini_tmax_source cfg in
      then_step (lift (index (split_first tmax_name_v) 0)) (\<lambda>tmax_source.
      then_step (lift (index (split_first tmax_name_v) 1)) (\<lambda>tmax_version.
      then_step (remote w (GetInfo ''projection'')) (\<lambda>_.
      then_step (remote w (GetInfo ''projection'')) (\<lambda>_.
      then_step (remote w (GetInfo ''image'')) (\<lambda>_.
      then_step (custom_cell_size cfg (w_tmax_transform w) (w_tmax_dimensions w)) (\<lambda>grid.
      then_step
        (if upper (ini_export_dest cfg) = ''ASSET''
         then get_ee_assets w coll_id
         else raise (ValueError (''invalid export destination: '' @ ini_export_dest cfg)))
        (\<lambda>assets.
      then_step (get_ee_tasks w) (\<lambda>task_ids.
      then_step (month_list_of cfg) (\<lambda>months.
      then_step (year_list_of cfg) (\<lambda>years.
      then_step (lift (strptime (ini_start_date cfg))) (\<lambda>iter_start_dt.
      then_step (lift (strptime (ini_end_date cfg))) (\<lambda>iter_end_dt.
        date_loop w cfg
          \<lparr>overwrite_flag = overwrite, delay = delay_s, tmax_name = tmax_name_v,
           tcorr_daily_coll_id = coll_id, export_crs = w_tmax_crs w,
           export_geo = fst grid, export_shape = snd grid,
           asset_list = assets, tasks = task_ids,
           month_list = months, year_list = years\<rparr>
          (date_range iter_start_dt iter_end_dt))))))))))))))"

text \<open>
  \<open>main\<close>, lines 36 to 71 and then the rest. \<open>tmax_name\<close> is a local variable of \<open>main\<close>
  (it is assigned at line 75), so at line 71, before that assignment, it has no value:
  the local is \<open>None\<close> there.
\<close>

definition main :: "world \<Rightarrow> ini \<Rightarrow> bool \<Rightarrow> real \<Rightarrow> string option \<Rightarrow> unit step" where
  "main w cfg overwrite delay_s key =
     then_step (emit (Log INFO ''Compute daily Tcorr images'')) (\<lambda>_.
     then_step (check_tmax_source cfg) (\<lambda>_.
     then_step (initialize w key) (\<lambda>_.
     then_step (read_local ''tmax_name'' (None :: string option)) (\<lambda>tmax_name_v.
       main_from_line_73 w cfg overwrite delay_s
         (ini_export_coll cfg @ ''/'' @ lower tmax_name_v @ ''_daily'')))))"

subsection \<open>The decision table of the export reconciler\<close>

text \<open>
  The table of the specification, section 4.5, in its own words: the state of an export
  target is given by whether a job is pending and whether an artifact exists; the table
  gives the clean-up actions, in order, and the decision.
\<close>

datatype target_state = Unpublished | JobPending | ArtifactPresent | JobPendingAndArtifactPresent

datatype action = CancelJob | DeleteArtifact

definition target_state_of :: "bool \<Rightarrow> bool \<Rightarrow> target_state" where
  "target_state_of hasPendingJob hasExistingArtifact =
     (if hasPendingJob then (if hasExistingArtifact then JobPendingAndArtifactPresent else JobPending)
      else (if hasExistingArtifact then ArtifactPresent else Unpublished))"

fun decision_table :: "target_state \<Rightarrow> bool \<Rightarrow> action list \<times> decision" where
  "decision_table Unpublished False = ([], Submit)"
| "decision_table Unpublished True = ([], Submit)"
| "decision_table JobPending False = ([], Skip)"
| "decision_table JobPending True = ([CancelJob], Submit)"
| "decision_table ArtifactPresent False = ([], Skip)"
| "decision_table ArtifactPresent True = ([DeleteArtifact], Submit)"
| "decision_table JobPendingAndArtifactPresent False = ([], Skip)"
| "decision_table JobPendingAndArtifactPresent True = ([CancelJob, DeleteArtifact], Submit)"

text \<open>The action a remote call stands for.\<close>

fun action_of :: "event \<Rightarrow> action option" where
  "action_of (CancelTask h) = Some CancelJob"
| "action_of (DeleteAsset a) = Some DeleteArtifact"
| "action_of _ = None"

subsection \<open>A concrete configuration and world\<close>

text \<open>
  Two scenes of 2020-01-02, one of Landsat 8 for which the statistical model returns both
  values and one of Landsat 7 for which it returns neither.
\<close>

definition example_l8_scene :: scene where
  "example_l8_scene =
     \<lparr>system_index = ''LC08_044033_20200102'', system_time_start = 1577989800000,
      CLOUD_COVER_LAND = 10, DATA_TYPE = ''L1TP'', SPACECRAFT_ID = ''LANDSAT_8'',
      geometry = {(0, 0)}\<rparr>"

definition example_l7_scene :: scene where
  "example_l7_scene =
     \<lparr>system_index = ''LE07_043033_20200102'', system_time_start = 1577989900000,
      CLOUD_COVER_LAND = 20, DATA_TYPE = ''L1TP'', SPACECRAFT_ID = ''LANDSAT_7'',
      geometry = {(0, 0), (0, 1)}\<rparr>"

definition example_service :: service where
  "example_service =
     \<lparr>LC08 = [example_l8_scene], LE07 = [example_l7_scene], LT05 = [],
      tmax_first = (\<lambda>p. if p = (0, 0) \<or> p = (0, 1) then Some 300 else None),
      tmax_geometry = {(0, 0), (0, 1)},
      tcorr_stats = (\<lambda>threshold s. if SPACECRAFT_ID s = ''LANDSAT_8''
                                      then map_of [(''tcorr_p5'', 3 / 2), (''tcorr_count'', 50)]
                                      else Map.empty),
      model_version = ''0.0.1''\<rparr>"

definition example_ini :: ini where
  "example_ini =
     \<lparr>ini_tmax_source = ''DAYMET_MEDIAN_V2'', ini_tdiff_threshold = 15,
      ini_start_date = ''2020-01-01'', ini_end_date = ''2020-01-03'',
      ini_cloud_cover = 70, ini_export_coll = ''projects/usgs-ssebop/tcorr'',
      ini_export_dest = ''ASSET'', ini_export_id_fmt = ''tcorr_{date}'',
      ini_cell_size = None, ini_min_pixel_count = 20,
      ini_months = None, ini_years = None\<rparr>"

definition example_world :: world where
  "example_world =
     \<lparr>w_service = example_service, w_tmax_crs = ''EPSG:4326'',
      w_tmax_transform = (1, 0, 0, 0, - 1, 0), w_tmax_dimensions = (1, 2),
      w_assets = (\<lambda>coll_id. []), w_tasks = Map.empty,
      w_today = \<lparr>year = 2020, month = 6, day = 1\<rparr>,
      w_fails = (\<lambda>ev. False)\<rparr>"

definition example_locals :: locals where
  "example_locals =
     \<lparr>overwrite_flag = False, delay = 0, tmax_name = ''DAYMET_MEDIAN_V2'',
      tcorr_daily_coll_id = ''tcorr/daymet_median_v2_daily'', export_crs = ''EPSG:4326'',
      export_geo = [1, 0, 0, 0, - 1, 0], export_shape = (1, 2),
      asset_list = [], tasks = Map.empty,
      month_list = [1, 2, 3, 4, 5, 6, 7, 8, 9, 10, 11, 12], year_list = []\<rparr>"


text \<open>
  The configuration of a run that asks for the CIMIS source with an end date before
  2003-10-01, and the first run of an overwriting pass in which the cancellation of the
  pending task of 2020-01-01 fails.
\<close>

definition example_cimis_ini :: ini where
  "example_cimis_ini = example_ini\<lparr>ini_tmax_source := ''CIMIS'', ini_end_date := ''2003-09-30''\<rparr>"

fun example_cancel_fails :: "event \<Rightarrow> bool" where
  "example_cancel_fails (CancelTask h) = True"
| "example_cancel_fails _ = False"

definition example_failing_world :: world where
  "example_failing_world = example_world\<lparr>w_fails := example_cancel_fails\<rparr>"

definition example_overwrite_locals :: locals where
  "example_overwrite_locals =
     example_locals\<lparr>overwrite_flag := True, tasks := map_of [(''tcorr_20200101'', ''T1'')]\<rparr>"

text \<open>
  The world of a second run on the next day, and the listings it sees after a first run
  over 2020-01-01 and 2020-01-02 from \<open>example_locals\<close>: the task of the first date is
  still pending, the one of the second date has finished and left its asset.
\<close>

definition example_later_world :: world where
  "example_later_world = example_world\<lparr>w_today := \<lparr>year = 2020, month = 6, day = 2\<rparr>\<rparr>"

definition example_second_locals :: locals where
  "example_second_locals =
     example_locals\<lparr>overwrite_flag := False,
                    tasks := map_of [(''tcorr_20200101'', ''T1'')],
                    asset_list := [''tcorr/daymet_median_v2_daily/20200102'']\<rparr>"

text \<open>
  A first run on 2020-01-02 and a second run on the day after, which sees the task of
  2020-01-01 still pending.
\<close>

definition example_first_day_world :: world where
  "example_first_day_world = example_world\<lparr>w_today := \<lparr>year = 2020, month = 1, day = 2\<rparr>\<rparr>"

definition example_next_day_world :: world where
  "example_next_day_world = example_world\<lparr>w_today := \<lparr>year = 2020, month = 1, day = 3\<rparr>\<rparr>"

definition example_pending_locals :: locals where
  "example_pending_locals =
     example_locals\<lparr>overwrite_flag := False, tasks := map_of [(''tcorr_20200101'', ''T1'')]\<rparr>"

section \<open>Properties\<close>

subsection \<open>Era selection\<close>

lemma era_applies_cases:
  "era_applies n d \<longleftrightarrow>
     (n = 0 \<and> d < ''1999-01-01'') \<or>
     (n = 1 \<and> \<not> d < ''1999-01-01'' \<and> d \<le> ''2011-12-31'') \<or>
     (n = 2 \<and> \<not> d < ''1999-01-01'' \<and> \<not> d \<le> ''2011-12-31'' \<and> d \<le> ''2013-03-24'') \<or>
     (n = 3 \<and> \<not> d < ''1999-01-01'' \<and> \<not> d \<le> ''2011-12-31'' \<and> \<not> d \<le> ''2013-03-24'')"
proof -
  have n4: "n < 4 \<longleftrightarrow> n = 0 \<or> n = 1 \<or> n = 2 \<or> n = 3" by auto
  show ?thesis
  proof (cases "n < 4")
    case False
    then show ?thesis using n4 by (simp add: era_applies_def era_tests_def)
  next
    case True
    then consider "n = 0" | "n = 1" | "n = 2" | "n = 3" using n4 by blast
    then show ?thesis
    proof cases
      case 1 then show ?thesis by (simp add: era_applies_def era_tests_def)
    next
      case 2 then show ?thesis by (auto simp: era_applies_def era_tests_def)
    next
      case 3 then show ?thesis by (auto simp: era_applies_def era_tests_def numeral_2_eq_2)
    next
      case 4 then show ?thesis by (auto simp: era_applies_def era_tests_def numeral_3_eq_3)
    qed
  qed
qed

text \<open>
  Claim C1, as the code has it. For every export date exactly one branch of the era
  chain applies, and \<open>landsat_coll\<close> is the collection of that branch. The cutoff dates
  2011-12-31 and 2013-03-24 are put with the earlier branch (Landsat 7 merged with
  Landsat 5, and Landsat 7 alone); only 1999-01-01 goes with the later one.
\<close>

theorem era_selection:
  "(\<exists>!n. era_applies n d)
   \<and> (\<forall>n. era_applies n d \<longrightarrow> landsat_coll d = era_results ! n)
   \<and> era_applies 1 ''1999-01-01'' \<and> landsat_coll ''1999-01-01'' = Merge L7_coll L5_coll
   \<and> era_applies 1 ''2011-12-31'' \<and> landsat_coll ''2011-12-31'' = Merge L7_coll L5_coll
   \<and> era_applies 2 ''2013-03-24'' \<and> landsat_coll ''2013-03-24'' = L7_coll"
proof -
  have ex: "\<exists>!n. era_applies n d"
    unfolding era_applies_cases by (rule ex_ex1I) auto
  have res: "\<forall>n. era_applies n d \<longrightarrow> landsat_coll d = era_results ! n"
    unfolding era_applies_cases landsat_coll_def era_results_def
    by (auto simp: numeral_2_eq_2 numeral_3_eq_3)
  show ?thesis using ex res by (simp add: era_applies_cases landsat_coll_def)
qed

theorem era_selection_witness:
  "era_applies 1 ''2011-12-31'' \<and> landsat_coll ''2011-12-31'' = Merge L7_coll L5_coll"
proof -
  have a: "era_applies 1 ''2011-12-31''"
    using era_selection [of "''2011-12-31''"] by blast
  have "landsat_coll ''2011-12-31'' = era_results ! 1"
    using a era_selection [of "''2011-12-31''"] by blast
  then show ?thesis using a by (simp add: era_results_def)
qed

text \<open>
  The claim as stated fails at the two cutoffs: 2011-12-31 still gets the merge of
  Landsat 7 and Landsat 5 and 2013-03-24 still gets Landsat 7 alone; the combination
  changes on the day after.
\<close>

theorem cutoff_dates_counterexample:
  "landsat_coll ''2011-12-31'' = Merge L7_coll L5_coll \<and> landsat_coll ''2012-01-01'' = L7_coll
   \<and> landsat_coll ''2013-03-24'' = L7_coll \<and> landsat_coll ''2013-03-25'' = Merge L8_coll L7_coll"
  by (simp add: landsat_coll_def)

subsection \<open>Cycle day\<close>

lemma cycle_base_dt_eq: "cycle_base_dt = \<lparr>year = 1970, month = 1, day = 3\<rparr>"
  by (simp add: cycle_base_dt_def cycle_dates_def)

text \<open>
  The cycle day of a date is \<open>((d - epoch).days mod 8) + 1\<close> for the epoch 1970-01-03,
  it lies between 1 and 8, and two dates eight days apart have the same cycle day.
\<close>

lemma cycle_day_range_period:
  "cycle_day d = (days_between d \<lparr>year = 1970, month = 1, day = 3\<rparr> mod 8) + 1
   \<and> 1 \<le> cycle_day d \<and> cycle_day d \<le> 8
   \<and> (days_between d' d = 8 \<longrightarrow> cycle_day d' = cycle_day d)"
proof -
  have a: "cycle_day d = (days_between d \<lparr>year = 1970, month = 1, day = 3\<rparr> mod 8) + 1"
    by (simp add: cycle_day_def cycle_base_dt_eq)
  have "0 \<le> days_between d cycle_base_dt mod 8" "days_between d cycle_base_dt mod 8 < 8"
    by simp_all
  then have b: "1 \<le> cycle_day d \<and> cycle_day d \<le> 8"
    unfolding cycle_day_def by linarith
  have c: "days_between d' d = 8 \<longrightarrow> cycle_day d' = cycle_day d"
  proof
    assume h: "days_between d' d = 8"
    have "days_between d' cycle_base_dt = days_between d cycle_base_dt + 8"
      using h by (simp add: days_between_def)
    then show "cycle_day d' = cycle_day d" by (simp add: cycle_day_def)
  qed
  show ?thesis using a b c by blast
qed

lemma cycle_day_example:
  "days_between \<lparr>year = 2020, month = 3, day = 5\<rparr> \<lparr>year = 2020, month = 2, day = 26\<rparr> = 8
   \<and> cycle_day \<lparr>year = 2020, month = 3, day = 5\<rparr> = 5
   \<and> cycle_day \<lparr>year = 2020, month = 2, day = 26\<rparr> = 5"
proof -
  have h: "days_between \<lparr>year = 2020, month = 3, day = 5\<rparr> \<lparr>year = 2020, month = 2, day = 26\<rparr> = 8"
    by (simp add: days_between_def toordinal_def days_before_year_def days_before_month_def
        is_leap_def)
  have v: "cycle_day \<lparr>year = 2020, month = 2, day = 26\<rparr> = 5"
    by (simp add: cycle_day_def cycle_base_dt_eq days_between_def toordinal_def
        days_before_year_def days_before_month_def is_leap_def)
  show ?thesis
    using h v cycle_day_range_period [of "\<lparr>year = 2020, month = 2, day = 26\<rparr>"
        "\<lparr>year = 2020, month = 3, day = 5\<rparr>"]
    by simp
qed

subsection \<open>Scene identifiers and tiles\<close>

lemma split_on_no_sep: "sep \<notin> set w \<Longrightarrow> split_on sep w = [w]"
  by (induction w) auto

lemma split_on_append_sep:
  "sep \<notin> set w \<Longrightarrow> split_on sep (w @ sep # rest) = w # split_on sep rest"
  by (induction w) auto

lemma split_on_join:
  "ws \<noteq> [] \<Longrightarrow> \<forall>w \<in> set ws. sep \<notin> set w \<Longrightarrow> split_on sep (join [sep] ws) = ws"
proof (induction "[sep]" ws rule: join.induct)
  case 1
  then show ?case by simp
next
  case (2 w)
  then show ?case by (simp add: split_on_no_sep)
next
  case (3 w v ws)
  then show ?case by (simp add: split_on_append_sep)
qed

lemma scene_id_of_join:
  assumes "\<forall>w \<in> set (pre @ [a, b, c]). CHR ''_'' \<notin> set w"
  shows "scene_id_of (join ''_'' (pre @ [a, b, c])) = Inr (a @ ''_'' @ b @ ''_'' @ c)"
proof -
  have "split_on CHR ''_'' (join ''_'' (pre @ [a, b, c])) = pre @ [a, b, c]"
    using assms by (intro split_on_join) simp_all
  moreover have "slice_last 3 (pre @ [a, b, c]) = [a, b, c]"
    by (simp add: slice_last_def)
  ultimately show ?thesis
    by (simp add: scene_id_of_def list_get_def bind_err_def)
qed

lemma dict_get_combine:
  "dict_get (combine_no_overwrite d [(''tcorr_p5'', 0), (''tcorr_count'', 0)]) ''tcorr_p5''
     = Inr (case d ''tcorr_p5'' of Some v \<Rightarrow> v | None \<Rightarrow> 0)"
  "dict_get (combine_no_overwrite d [(''tcorr_p5'', 0), (''tcorr_count'', 0)]) ''tcorr_count''
     = Inr (case d ''tcorr_count'' of Some v \<Rightarrow> v | None \<Rightarrow> 0)"
  by (simp_all add: dict_get_def combine_no_overwrite_def split: option.splits)

lemma tcorr_img_func_eq:
  "tcorr_img_func svc cfg img =
     bind_err (scene_id_of (system_index img)) (\<lambda>scene_id.
        Inr \<lparr>tc_raster = (\<lambda>p. if p \<in> geometry img
                               then map_option (\<lambda>v. v + (case tcorr_stats svc (ini_tdiff_threshold cfg) img ''tcorr_p5'' of Some v \<Rightarrow> v | None \<Rightarrow> 0)) (tmax_mask svc p) else None),
             tc_time_start = system_time_start img,
             tc_scene_id = scene_id,
             tc_wrs2_tile = string_slice scene_id 5 11,
             tc_spacecraft_id = SPACECRAFT_ID img,
             tc_tcorr = (case tcorr_stats svc (ini_tdiff_threshold cfg) img ''tcorr_p5'' of Some v \<Rightarrow> v | None \<Rightarrow> 0),
             tc_count = (case tcorr_stats svc (ini_tdiff_threshold cfg) img ''tcorr_count'' of Some v \<Rightarrow> v | None \<Rightarrow> 0)\<rparr>)"
  unfolding tcorr_img_func_def Let_def dict_get_combine by (simp add: bind_err_def)

lemma string_slice_positions:
  "stop \<le> length s \<Longrightarrow> start \<le> stop \<Longrightarrow>
     length (string_slice s start stop) = stop - start
     \<and> (\<forall>i < stop - start. string_slice s start stop ! i = s ! (start + i))"
  by (simp add: string_slice_def)

lemma tile_of_landsat_id:
  "length a = 4 \<Longrightarrow> length b = 6 \<Longrightarrow> string_slice (a @ ''_'' @ b @ ''_'' @ c) 5 11 = b"
  by (simp add: string_slice_def)

text \<open>
  Claim C9. When the index of a scene is made of components joined by underscores, the
  last three being \<open>a\<close>, \<open>b\<close>, \<open>c\<close> and the ones before them the indices added by
  merging, the scene corrector returns, its scene identifier is \<open>a_b_c\<close>, and its tile
  is the slice of that identifier from position 5 to position 10: six characters when
  the identifier has at least eleven, and the component \<open>b\<close> for a four-character
  \<open>a\<close> and a six-character \<open>b\<close>.
\<close>

theorem scene_id_and_tile:
  assumes "system_index img = join ''_'' (pre @ [a, b, c])"
      and "\<forall>w \<in> set (pre @ [a, b, c]). CHR ''_'' \<notin> set w"
  shows "\<exists>t. tcorr_img_func svc cfg img = Inr t
           \<and> tc_scene_id t = a @ ''_'' @ b @ ''_'' @ c
           \<and> tc_wrs2_tile t = string_slice (tc_scene_id t) 5 11
           \<and> (11 \<le> length (tc_scene_id t) \<longrightarrow>
                length (tc_wrs2_tile t) = 6
                \<and> (\<forall>i < 6. tc_wrs2_tile t ! i = tc_scene_id t ! (5 + i)))
           \<and> (length a = 4 \<and> length b = 6 \<longrightarrow> tc_wrs2_tile t = b)"
proof -
  define sid where "sid = a @ ''_'' @ b @ ''_'' @ c"
  have "scene_id_of (system_index img) = Inr sid"
    using assms scene_id_of_join sid_def by simp
  then obtain t where t: "tcorr_img_func svc cfg img = Inr t"
    and id: "tc_scene_id t = sid" and tile: "tc_wrs2_tile t = string_slice sid 5 11"
    unfolding tcorr_img_func_eq by (simp add: bind_err_def)
  have pos: "11 \<le> length sid \<longrightarrow>
               length (string_slice sid 5 11) = 6
               \<and> (\<forall>i < 6. string_slice sid 5 11 ! i = sid ! (5 + i))"
    using string_slice_positions [of 11 sid 5] by simp
  have b: "length a = 4 \<and> length b = 6 \<longrightarrow> string_slice sid 5 11 = b"
    unfolding sid_def using tile_of_landsat_id by blast
  show ?thesis
    using t id tile pos b sid_def by metis
qed

lemma example_scenes:
  "eval_coll example_service example_ini \<lparr>year = 2020, month = 1, day = 2\<rparr>
     (landsat_coll (strftime_iso \<lparr>year = 2020, month = 1, day = 2\<rparr>))
   = [example_l8_scene\<lparr>system_index := ''1_LC08_044033_20200102''\<rparr>,
      example_l7_scene\<lparr>system_index := ''2_LE07_043033_20200102''\<rparr>]"
  by (simp add: strftime_iso_def pad4_def pad2_def digit_def landsat_coll_def merge_def
      l8_coll_def l7_coll_def common_filter_def example_service_def example_ini_def
      example_l8_scene_def example_l7_scene_def millis_def toordinal_def days_before_year_def
      days_before_month_def is_leap_def)

lemma example_no_scenes:
  "eval_coll example_service example_ini \<lparr>year = 2020, month = 1, day = 5\<rparr>
     (landsat_coll (strftime_iso \<lparr>year = 2020, month = 1, day = 5\<rparr>)) = []"
  by (simp add: strftime_iso_def pad4_def pad2_def digit_def landsat_coll_def merge_def
      l8_coll_def l7_coll_def common_filter_def example_service_def example_ini_def
      example_l8_scene_def example_l7_scene_def millis_def toordinal_def days_before_year_def
      days_before_month_def is_leap_def)

theorem scene_id_and_tile_witness:
  "\<exists>t. tcorr_img_func example_service example_ini
         (example_l8_scene\<lparr>system_index := ''1_LC08_044033_20200102''\<rparr>) = Inr t
       \<and> tc_scene_id t = ''LC08_044033_20200102'' \<and> tc_wrs2_tile t = ''044033''"
proof -
  have idx: "system_index (example_l8_scene\<lparr>system_index := ''1_LC08_044033_20200102''\<rparr>)
               = join ''_'' ([''1''] @ [''LC08'', ''044033'', ''20200102''])"
    by simp
  have free: "\<forall>w \<in> set ([''1''] @ [''LC08'', ''044033'', ''20200102'']). CHR ''_'' \<notin> set w"
    by simp
  show ?thesis
    using scene_id_and_tile [OF idx free, of example_service example_ini] by auto
qed

subsection \<open>Defaults and the pixel-count threshold\<close>

lemma map_coll_Inr:
  "map_coll f xs = Inr ys \<longleftrightarrow> list_all2 (\<lambda>x y. f x = Inr y) xs ys"
proof (induction xs arbitrary: ys)
  case Nil
  then show ?case by auto
next
  case (Cons x xs)
  show ?case
  proof (cases "f x")
    case (Inl e)
    then show ?thesis by (auto simp: bind_err_def list_all2_Cons1)
  next
    case (Inr y)
    then show ?thesis
      using Cons.IH by (cases "map_coll f xs") (auto simp: bind_err_def list_all2_Cons1)
  qed
qed

lemma list_all2_in_set:
  "list_all2 P xs ys \<Longrightarrow> x \<in> set xs \<Longrightarrow> \<exists>y \<in> set ys. P x y"
  by (induction rule: list_all2_induct) auto

lemma tcorr_img_func_values:
  assumes "tcorr_img_func svc cfg s = Inr t"
  shows "tc_tcorr t = (case tcorr_stats svc (ini_tdiff_threshold cfg) s ''tcorr_p5'' of
                         Some v \<Rightarrow> v | None \<Rightarrow> 0)"
    and "tc_count t = (case tcorr_stats svc (ini_tdiff_threshold cfg) s ''tcorr_count'' of
                         Some v \<Rightarrow> v | None \<Rightarrow> 0)"
  using assms unfolding tcorr_img_func_eq
  by (cases "scene_id_of (system_index s)"; auto simp: bind_err_def)+

text \<open>
  Claim C8. For every scene that passes the source filters of a date, the correction
  value and the count are those of the statistical model, with 0 for one it leaves out,
  and the correction is missing from the collection that is aggregated exactly when its
  count is less than \<open>min_pixel_count\<close>.
\<close>

theorem scene_corrector_defaults_and_threshold:
  assumes "s \<in> set (eval_coll svc cfg d (landsat_coll (strftime_iso d)))"
      and "map_coll (tcorr_img_func svc cfg)
             (eval_coll svc cfg d (landsat_coll (strftime_iso d))) = Inr imgs"
  shows "\<exists>t kept. tcorr_img_func svc cfg s = Inr t
           \<and> tc_tcorr t = (case tcorr_stats svc (ini_tdiff_threshold cfg) s ''tcorr_p5'' of
                             Some v \<Rightarrow> v | None \<Rightarrow> 0)
           \<and> tc_count t = (case tcorr_stats svc (ini_tdiff_threshold cfg) s ''tcorr_count'' of
                             Some v \<Rightarrow> v | None \<Rightarrow> 0)
           \<and> tcorr_img_coll svc cfg d = Inr kept
           \<and> (t \<notin> set kept \<longleftrightarrow> tc_count t < ini_min_pixel_count cfg)"
proof -
  let ?scenes = "eval_coll svc cfg d (landsat_coll (strftime_iso d))"
  have all2: "list_all2 (\<lambda>x y. tcorr_img_func svc cfg x = Inr y) ?scenes imgs"
    using assms(2) by (simp add: map_coll_Inr)
  obtain t where t: "t \<in> set imgs" "tcorr_img_func svc cfg s = Inr t"
    using list_all2_in_set [OF all2 assms(1)] by blast
  let ?kept = "filter (\<lambda>i. \<not> tc_count i < ini_min_pixel_count cfg) imgs"
  have kept: "tcorr_img_coll svc cfg d = Inr ?kept"
    using assms(2) by (simp add: tcorr_img_coll_def bind_err_def)
  have excl: "t \<notin> set ?kept \<longleftrightarrow> tc_count t < ini_min_pixel_count cfg"
    using t(1) by simp
  show ?thesis
    apply (rule exI [of _ t])
    apply (rule exI [of _ ?kept])
    using t(2) kept excl tcorr_img_func_values [OF t(2)] apply simp
    done
qed

theorem scene_corrector_witness:
  "\<exists>t kept. tcorr_img_func example_service example_ini
                (example_l7_scene\<lparr>system_index := ''2_LE07_043033_20200102''\<rparr>) = Inr t
       \<and> tc_tcorr t = 0 \<and> tc_count t = 0
       \<and> tcorr_img_coll example_service example_ini \<lparr>year = 2020, month = 1, day = 2\<rparr> = Inr kept
       \<and> t \<notin> set kept"
proof -
  let ?d = "\<lparr>year = 2020, month = 1, day = 2\<rparr>"
  let ?s = "example_l7_scene\<lparr>system_index := ''2_LE07_043033_20200102''\<rparr>"
  have mem: "?s \<in> set (eval_coll example_service example_ini ?d (landsat_coll (strftime_iso ?d)))"
    unfolding example_scenes by simp
  have i1: "system_index (example_l8_scene\<lparr>system_index := ''1_LC08_044033_20200102''\<rparr>)
               = join ''_'' ([''1''] @ [''LC08'', ''044033'', ''20200102''])"
    by simp
  have i2: "system_index ?s = join ''_'' ([''2''] @ [''LE07'', ''043033'', ''20200102''])"
    by simp
  obtain t1 where t1: "tcorr_img_func example_service example_ini
         (example_l8_scene\<lparr>system_index := ''1_LC08_044033_20200102''\<rparr>) = Inr t1"
    using scene_id_and_tile [OF i1, of example_service example_ini] by auto
  obtain t2 where t2: "tcorr_img_func example_service example_ini ?s = Inr t2"
    using scene_id_and_tile [OF i2, of example_service example_ini] by auto
  have all: "map_coll (tcorr_img_func example_service example_ini)
               (eval_coll example_service example_ini ?d (landsat_coll (strftime_iso ?d)))
             = Inr [t1, t2]"
    unfolding example_scenes by (simp add: t1 t2 bind_err_def)
  have stats: "tcorr_stats example_service (ini_tdiff_threshold example_ini) ?s = Map.empty"
    by (simp add: example_service_def example_l7_scene_def)
  have minp: "ini_min_pixel_count example_ini = 20"
    by (simp add: example_ini_def)
  show ?thesis
    using scene_corrector_defaults_and_threshold [OF mem all]
    by (auto simp: stats minp)
qed

subsection \<open>The day without corrections\<close>

lemma updateMask_zero: "updateMask r 0 = (\<lambda>p. None)"
  by (simp add: updateMask_def)

lemma unique_properties_empty: "unique_properties [] f = []"
  by (simp add: unique_properties_def)

text \<open>
  Claim C6. When no correction of a date survives, the daily image has no valid pixel
  (so no pixel has the value 0), and its Landsat list and its tile list are the empty
  string.
\<close>

theorem empty_day_is_masked:
  assumes "tcorr_img_coll svc cfg d = Inr []"
  shows "\<exists>img. tcorr_img svc cfg tmax_source tmax_version today d = Inr img
           \<and> (\<forall>p. di_raster img p = None)
           \<and> (\<forall>p. di_raster img p \<noteq> Some 0)
           \<and> di_landsat img = ''''
           \<and> di_wrs2_tiles img = ''''"
  using assms
  by (simp add: tcorr_img_def bind_err_def updateMask_zero unique_properties_empty)

theorem empty_day_is_masked_witness:
  "tcorr_img_coll example_service example_ini \<lparr>year = 2020, month = 1, day = 5\<rparr> = Inr []
   \<and> (\<exists>img. tcorr_img example_service example_ini ''DAYMET'' ''MEDIAN_V2''
                \<lparr>year = 2020, month = 6, day = 1\<rparr> \<lparr>year = 2020, month = 1, day = 5\<rparr> = Inr img
           \<and> di_raster img (0, 0) = None \<and> di_landsat img = '''' \<and> di_wrs2_tiles img = '''')"
proof -
  have e: "tcorr_img_coll example_service example_ini \<lparr>year = 2020, month = 1, day = 5\<rparr> = Inr []"
    unfolding tcorr_img_coll_def example_no_scenes by (simp add: bind_err_def)
  show ?thesis
    using e empty_day_is_masked [OF e, of "''DAYMET''" "''MEDIAN_V2''"
        "\<lparr>year = 2020, month = 6, day = 1\<rparr>"]
    by auto
qed
subsection \<open>The cycle day of the daily image\<close>

text \<open>
  Claim C7. For every date whose corrections evaluate, the daily image is built and the
  property \<open>cycle_day\<close> set on it at line 372 is \<open>((d - epoch).days mod 8) + 1\<close> for
  the epoch 1970-01-03; it lies between 1 and 8, and the images of two dates eight days
  apart carry the same cycle day.
\<close>

theorem daily_image_cycle_day:
  assumes "tcorr_img_coll svc cfg d = Inr coll" and "tcorr_img_coll svc cfg d' = Inr coll'"
  shows "\<exists>img img'. tcorr_img svc cfg tmax_source tmax_version today d = Inr img
           \<and> tcorr_img svc cfg tmax_source tmax_version today d' = Inr img'
           \<and> di_cycle_day img = (days_between d \<lparr>year = 1970, month = 1, day = 3\<rparr> mod 8) + 1
           \<and> 1 \<le> di_cycle_day img \<and> di_cycle_day img \<le> 8
           \<and> (days_between d' d = 8 \<longrightarrow> di_cycle_day img' = di_cycle_day img)"
proof -
  obtain img where img: "tcorr_img svc cfg tmax_source tmax_version today d = Inr img"
    and c: "di_cycle_day img = cycle_day d"
    using assms(1) by (simp add: tcorr_img_def bind_err_def)
  obtain img' where img': "tcorr_img svc cfg tmax_source tmax_version today d' = Inr img'"
    and c': "di_cycle_day img' = cycle_day d'"
    using assms(2) by (simp add: tcorr_img_def bind_err_def)
  show ?thesis
    using img img' c c' cycle_day_range_period [of d d'] by auto
qed

lemma example_no_scenes_later:
  "eval_coll example_service example_ini \<lparr>year = 2020, month = 1, day = 13\<rparr>
     (landsat_coll (strftime_iso \<lparr>year = 2020, month = 1, day = 13\<rparr>)) = []"
  by (simp add: strftime_iso_def pad4_def pad2_def digit_def landsat_coll_def merge_def
      l8_coll_def l7_coll_def common_filter_def example_service_def example_ini_def
      example_l8_scene_def example_l7_scene_def millis_def toordinal_def days_before_year_def
      days_before_month_def is_leap_def)

theorem daily_image_cycle_day_witness:
  "\<exists>img img'. tcorr_img example_service example_ini ''DAYMET'' ''MEDIAN_V2''
                  \<lparr>year = 2020, month = 6, day = 1\<rparr> \<lparr>year = 2020, month = 1, day = 5\<rparr> = Inr img
      \<and> tcorr_img example_service example_ini ''DAYMET'' ''MEDIAN_V2''
                  \<lparr>year = 2020, month = 6, day = 1\<rparr> \<lparr>year = 2020, month = 1, day = 13\<rparr> = Inr img'
      \<and> di_cycle_day img = 1 \<and> di_cycle_day img' = 1"
proof -
  let ?d = "\<lparr>year = 2020, month = 1, day = 5\<rparr>"
  let ?d' = "\<lparr>year = 2020, month = 1, day = 13\<rparr>"
  have e: "tcorr_img_coll example_service example_ini ?d = Inr []"
    unfolding tcorr_img_coll_def example_no_scenes by (simp add: bind_err_def)
  have e': "tcorr_img_coll example_service example_ini ?d' = Inr []"
    unfolding tcorr_img_coll_def example_no_scenes_later by (simp add: bind_err_def)
  have apart: "days_between ?d' ?d = 8"
    by (simp add: days_between_def toordinal_def days_before_year_def days_before_month_def
        is_leap_def)
  have v: "days_between ?d \<lparr>year = 1970, month = 1, day = 3\<rparr> mod 8 + 1 = 1"
    by (simp add: days_between_def toordinal_def days_before_year_def days_before_month_def
        is_leap_def)
  show ?thesis
    using daily_image_cycle_day [OF e e', of "''DAYMET''" "''MEDIAN_V2''"
        "\<lparr>year = 2020, month = 6, day = 1\<rparr>"] apart v
    by auto
qed

subsection \<open>Steps and the export reconciler\<close>

lemma then_step_ret [simp]: "then_step (ret x) f = f x"
  by (simp add: then_step_def ret_def)

lemma then_step_raise [simp]: "then_step (raise e) f = raise e"
  by (simp add: then_step_def raise_def)

lemma then_step_emit [simp]: "then_step (emit ev) f = (ev # fst (f ()), snd (f ()))"
  by (simp add: then_step_def emit_def)

lemma then_step_remote:
  "then_step (remote w ev) f =
     (if w_fails w ev then ([ev], Inl (EEException ''remote call failed''))
      else (ev # fst (f ()), snd (f ())))"
  by (simp add: then_step_def remote_def)

lemma then_step_Inr [simp]: "then_step (tr, Inr x) f = (tr @ fst (f x), snd (f x))"
  by (simp add: then_step_def)

lemma then_step_Inl [simp]: "then_step (tr, Inl e) f = (tr, Inl e)"
  by (simp add: then_step_def)

lemma then_step_lift_Inr [simp]: "then_step (lift (Inr x)) f = f x"
  by (simp add: then_step_def lift_def)

lemma then_step_lift_Inl [simp]: "then_step (lift (Inl e)) f = ([], Inl e)"
  by (simp add: then_step_def lift_def)

lemma read_local_Some [simp]: "read_local n (Some x) = ret x"
  by (simp add: read_local_def)

lemma read_local_None [simp]: "read_local n None = raise (UnboundLocalError n)"
  by (simp add: read_local_def)

lemma fst_ret [simp]: "fst (ret x) = []" and snd_ret [simp]: "snd (ret x) = Inr x"
  by (simp_all add: ret_def)

lemma fst_raise [simp]: "fst (raise e) = []" and snd_raise [simp]: "snd (raise e) = Inl e"
  by (simp_all add: raise_def)

lemma fst_emit [simp]: "fst (emit ev) = [ev]" and snd_emit [simp]: "snd (emit ev) = Inr ()"
  by (simp_all add: emit_def)

lemma fst_remote [simp]: "fst (remote w ev) = [ev]"
  by (simp add: remote_def)

lemma snd_remote:
  "snd (remote w ev) = (if w_fails w ev then Inl (EEException ''remote call failed'') else Inr ())"
  by (simp add: remote_def)

lemma ret_eq [simp]: "ret x = (tr, r) \<longleftrightarrow> tr = [] \<and> r = Inr x"
  by (auto simp: ret_def)

lemma upper_ASSET: "upper ''ASSET'' = ''ASSET''"
  by (simp add: upper_def lower_case_letters_def upper_case_letters_def)

lemma reconcile_events:
  assumes "ini_export_dest cfg = ''ASSET''" and "\<forall>ev. \<not> w_fails w ev"
  shows "reconcile w cfg l export_id (Some asset_id) =
           (if overwrite_flag l
            then ((case tasks l export_id of Some task_id \<Rightarrow> [CancelTask task_id] | None \<Rightarrow> [])
                    @ (if asset_id \<in> set (asset_list l) then [DeleteAsset asset_id] else []),
                  Inr Submit)
            else ([], Inr (if export_id \<in> dom (tasks l) \<or> asset_id \<in> set (asset_list l)
                           then Skip else Submit)))"
  using assms
  by (auto simp: reconcile_def upper_ASSET then_step_remote split: option.splits)

text \<open>
  Claim C4. For the destination \<open>ASSET\<close> and remote calls that succeed, the reconciler
  follows the decision table in all eight combinations of state and overwrite flag:
  without the flag a pending task or an existing asset gives \<open>Skip\<close> and nothing is
  called; with the flag the pending task is cancelled and the existing asset is deleted,
  each when it exists and both when both exist, in that order, and the decision is
  \<open>Submit\<close>. A submission starts the export task of the date.
\<close>

theorem reconciler_decision_table:
  assumes "ini_export_dest cfg = ''ASSET''" and "\<forall>ev. \<not> w_fails w ev"
  shows "snd (reconcile w cfg l export_id (Some asset_id))
           = Inr (snd (decision_table
                    (target_state_of (export_id \<in> dom (tasks l)) (asset_id \<in> set (asset_list l)))
                    (overwrite_flag l)))
         \<and> map action_of (fst (reconcile w cfg l export_id (Some asset_id)))
           = map Some (fst (decision_table
                    (target_state_of (export_id \<in> dom (tasks l)) (asset_id \<in> set (asset_list l)))
                    (overwrite_flag l)))
         \<and> fst (reconcile w cfg l export_id (Some asset_id))
           = (if overwrite_flag l
              then (case tasks l export_id of Some task_id \<Rightarrow> [CancelTask task_id] | None \<Rightarrow> [])
                     @ (if asset_id \<in> set (asset_list l) then [DeleteAsset asset_id] else [])
              else [])
         \<and> fst (submit w cfg l export_id (Some asset_id))
           = [StartTask \<lparr>description = export_id, assetId = asset_id, crs = export_crs l,
                         crsTransform = export_geo l, dimensions = export_shape l\<rparr>,
              DelayTask (delay l)]"
proof -
  have sub: "fst (submit w cfg l export_id (Some asset_id))
           = [StartTask \<lparr>description = export_id, assetId = asset_id, crs = export_crs l,
                         crsTransform = export_geo l, dimensions = export_shape l\<rparr>,
              DelayTask (delay l)]"
    using assms by (simp add: submit_def ee_task_start_def delay_task_def then_step_remote)
  show ?thesis
    unfolding reconcile_events [OF assms] sub
    by (cases "tasks l export_id"; cases "asset_id \<in> set (asset_list l)";
        cases "overwrite_flag l"; simp add: target_state_of_def dom_def)
qed

theorem reconciler_decision_table_witness:
  "reconcile example_world example_ini
     (example_second_locals\<lparr>overwrite_flag := True,
        asset_list := [''tcorr/daymet_median_v2_daily/20200101'']\<rparr>)
     ''tcorr_20200101'' (Some ''tcorr/daymet_median_v2_daily/20200101'')
   = ([CancelTask ''T1'', DeleteAsset ''tcorr/daymet_median_v2_daily/20200101''], Inr Submit)"
proof -
  have a: "ini_export_dest example_ini = ''ASSET''" by (simp add: example_ini_def)
  have b: "\<forall>ev. \<not> w_fails example_world ev" by (simp add: example_world_def)
  show ?thesis
    using reconciler_decision_table [OF a b,
        of "example_second_locals\<lparr>overwrite_flag := True,
              asset_list := [''tcorr/daymet_median_v2_daily/20200101'']\<rparr>"
           "''tcorr_20200101''" "''tcorr/daymet_median_v2_daily/20200101''"]
    by (cases "reconcile example_world example_ini
     (example_second_locals\<lparr>overwrite_flag := True,
        asset_list := [''tcorr/daymet_median_v2_daily/20200101'']\<rparr>)
     ''tcorr_20200101'' (Some ''tcorr/daymet_median_v2_daily/20200101'')")
       (simp add: example_second_locals_def example_locals_def target_state_of_def)
qed

subsection \<open>The start of \<open>main\<close>\<close>

lemma check_tmax_source_cases:
  "check_tmax_source cfg =
     (if upper (ini_tmax_source cfg) = ''CIMIS'' \<and> ini_end_date cfg < ''2003-10-01''
      then ([Log ERROR ''CIMIS is not currently available before 2003-10-01, exiting''],
            Inl (SystemExit None))
      else if upper (ini_tmax_source cfg) = ''DAYMET'' \<and> ''2017-12-31'' < ini_end_date cfg
      then ([Log WARNING
               ''DAYMET is not currently available past 2017-12-31, using median Tmax values''],
            Inr ())
      else ([], Inr ()))"
  by (simp add: check_tmax_source_def raise_def emit_def ret_def)

lemma initialize_cases:
  "initialize w key =
     ((case key of
         Some k \<Rightarrow> [Log INFO ''Initializing Earth Engine'',
                    Log INFO (''  Using service account key file: '' @ k)]
       | None \<Rightarrow> [Log INFO ''Initializing Earth Engine'']) @ [Initialize key],
      if w_fails w (Initialize key) then Inl (EEException ''remote call failed'') else Inr ())"
  by (cases key) (simp_all add: initialize_def remote_def)

lemma main_cases:
  "main w cfg overwrite delay_s key =
     (if upper (ini_tmax_source cfg) = ''CIMIS'' \<and> ini_end_date cfg < ''2003-10-01''
      then ([Log INFO ''Compute daily Tcorr images'',
             Log ERROR ''CIMIS is not currently available before 2003-10-01, exiting''],
            Inl (SystemExit None))
      else (Log INFO ''Compute daily Tcorr images''
              # fst (check_tmax_source cfg) @ fst (initialize w key),
            if w_fails w (Initialize key) then Inl (EEException ''remote call failed'')
            else Inl (UnboundLocalError ''tmax_name'')))"
  unfolding main_def
  by (simp add: check_tmax_source_cases initialize_cases raise_def)

text \<open>
  Claim C3. \<open>main\<close> never returns normally: every run ends with an exception before the
  date loop, having done nothing but log and initialize the service, so no task is
  started or cancelled and no asset is deleted. When the Tmax check does not exit and the
  initialization succeeds, the exception is the unbound local \<open>tmax_name\<close> of line 71.
\<close>

theorem main_stops_before_the_loop:
  "(\<exists>e. snd (main w cfg overwrite delay_s key) = Inl e)
   \<and> (\<forall>ev \<in> set (fst (main w cfg overwrite delay_s key)). is_log ev \<or> ev = Initialize key)
   \<and> (\<forall>ev \<in> set (fst (main w cfg overwrite delay_s key)). \<not> is_mutation ev)
   \<and> (\<not> (upper (ini_tmax_source cfg) = ''CIMIS'' \<and> ini_end_date cfg < ''2003-10-01'')
        \<and> \<not> w_fails w (Initialize key)
        \<longrightarrow> snd (main w cfg overwrite delay_s key) = Inl (UnboundLocalError ''tmax_name''))"
  unfolding main_cases
  by (cases key) (auto simp: check_tmax_source_cases initialize_cases)

lemma upper_example: "upper ''DAYMET_MEDIAN_V2'' = ''DAYMET_MEDIAN_V2''"
  by (simp add: upper_def lower_case_letters_def upper_case_letters_def)

theorem main_stops_before_the_loop_witness:
  "main example_world example_ini False 0 None
     = ([Log INFO ''Compute daily Tcorr images'', Log INFO ''Initializing Earth Engine'',
         Initialize None],
        Inl (UnboundLocalError ''tmax_name''))"
proof -
  have a: "\<not> (upper (ini_tmax_source example_ini) = ''CIMIS''
               \<and> ini_end_date example_ini < ''2003-10-01'')"
    by (simp add: example_ini_def)
  have b: "\<not> w_fails example_world (Initialize None)"
    by (simp add: example_world_def)
  have r: "snd (main example_world example_ini False 0 None) = Inl (UnboundLocalError ''tmax_name'')"
    using a b main_stops_before_the_loop [of example_world example_ini False 0 None] by blast
  have t: "fst (main example_world example_ini False 0 None)
             = [Log INFO ''Compute daily Tcorr images'', Log INFO ''Initializing Earth Engine'',
                Initialize None]"
    by (simp add: main_def check_tmax_source_cases initialize_cases example_ini_def
        upper_example raise_def)
  show ?thesis using r t by (simp add: prod_eq_iff)
qed

lemma upper_CIMIS: "upper ''CIMIS'' = ''CIMIS''"
  by (simp add: upper_def lower_case_letters_def upper_case_letters_def)

text \<open>
  Claim C10, at the configuration \<open>example_cimis_ini\<close>: the error record is logged and
  \<open>main\<close> exits before any remote call, but through \<open>sys.exit()\<close> without a code, so
  the exit status of the process is 0.
\<close>

theorem cimis_exit_status_is_zero:
  "main example_world example_cimis_ini False 0 None
     = ([Log INFO ''Compute daily Tcorr images'',
         Log ERROR ''CIMIS is not currently available before 2003-10-01, exiting''],
        Inl (SystemExit None))
   \<and> exit_status (snd (main example_world example_cimis_ini False 0 None)) = 0"
  by (simp add: main_cases example_cimis_ini_def example_ini_def upper_CIMIS)

subsection \<open>A remote call that fails\<close>

lemma fail_stop_then:
  assumes "\<forall>ev \<in> set (fst m). P ev \<longrightarrow> snd m = Inl E"
      and "\<And>x. \<forall>ev \<in> set (fst (f x)). P ev \<longrightarrow> snd (f x) = Inl E"
  shows "\<forall>ev \<in> set (fst (then_step m f)). P ev \<longrightarrow> snd (then_step m f) = Inl E"
proof (cases "snd m")
  case (Inl e)
  then show ?thesis using assms(1) by (simp add: then_step_def)
next
  case (Inr x)
  then show ?thesis using assms(1) assms(2) [of x] by (auto simp: then_step_def)
qed

lemma fail_stop_reconcile:
  "\<forall>ev \<in> set (fst (reconcile w cfg l export_id asset_id)). is_mutation ev \<and> w_fails w ev
      \<longrightarrow> snd (reconcile w cfg l export_id asset_id) = Inl (EEException ''remote call failed'')"
  unfolding reconcile_def
  by (cases asset_id; cases "tasks l export_id")
     (auto simp: then_step_remote snd_remote split: if_splits)

lemma fail_stop_submit:
  "\<forall>ev \<in> set (fst (submit w cfg l export_id asset_id)). is_mutation ev \<and> w_fails w ev
      \<longrightarrow> snd (submit w cfg l export_id asset_id) = Inl (EEException ''remote call failed'')"
  unfolding submit_def ee_task_start_def delay_task_def
  by (cases asset_id) (auto simp: then_step_remote snd_remote split: if_splits)

lemma fail_stop_process_date:
  "\<forall>ev \<in> set (fst (process_date w cfg l d)). is_mutation ev \<and> w_fails w ev
      \<longrightarrow> snd (process_date w cfg l d) = Inl (EEException ''remote call failed'')"
proof -
  have body: "\<forall>ev \<in> set (fst (then_step (reconcile w cfg l e a)
                 (\<lambda>d. case d of Skip \<Rightarrow> ret () | Submit \<Rightarrow> submit w cfg l e a))).
        is_mutation ev \<and> w_fails w ev \<longrightarrow>
        snd (then_step (reconcile w cfg l e a)
                 (\<lambda>d. case d of Skip \<Rightarrow> ret () | Submit \<Rightarrow> submit w cfg l e a))
          = Inl (EEException ''remote call failed'')" for e a
  proof (rule fail_stop_then [OF fail_stop_reconcile])
    fix x show "\<forall>ev\<in>set (fst (case x of Skip \<Rightarrow> ret () | Submit \<Rightarrow> submit w cfg l e a)).
            is_mutation ev \<and> w_fails w ev \<longrightarrow>
            snd (case x of Skip \<Rightarrow> ret () | Submit \<Rightarrow> submit w cfg l e a) =
            Inl (EEException ''remote call failed'')"
      using fail_stop_submit [of w cfg l e a] by (cases x) simp_all
  qed
  show ?thesis
  proof (cases "export_id_of cfg l d")
    case (Inl err)
    then show ?thesis by (simp add: process_date_def Let_def)
  next
    case (Inr e)
    then show ?thesis
      using body [of e "if ini_export_dest cfg = ''ASSET'' then Some (asset_id_of l d) else None"]
      by (simp add: process_date_def Let_def)
  qed
qed

lemma date_loop_append_failure:
  assumes "\<forall>x \<in> set pre. snd (process_date w cfg l x) = Inr ()"
      and "snd (process_date w cfg l d) = Inl e"
  shows "date_loop w cfg l (pre @ d # post)
           = (concat (map (\<lambda>x. fst (process_date w cfg l x)) pre) @ fst (process_date w cfg l d),
              Inl e)"
  using assms
proof (induction pre)
  case Nil
  then show ?case by (simp add: then_step_def)
next
  case (Cons x pre)
  then show ?case by (simp add: then_step_def)
qed

text \<open>
  Claim C2, as the code has it. When the dates before \<open>d\<close> are processed without an
  exception and a cancel, delete or start call made for \<open>d\<close> fails, the loop ends there
  with that exception: the events of the run are those of the dates up to \<open>d\<close>, and no
  date after \<open>d\<close> is processed.
\<close>

theorem remote_failure_ends_the_run:
  assumes "\<forall>x \<in> set pre. snd (process_date w cfg l x) = Inr ()"
      and "ev \<in> set (fst (process_date w cfg l d))" and "is_mutation ev" and "w_fails w ev"
  shows "date_loop w cfg l (pre @ d # post)
           = (concat (map (\<lambda>x. fst (process_date w cfg l x)) pre) @ fst (process_date w cfg l d),
              Inl (EEException ''remote call failed''))"
proof -
  have "snd (process_date w cfg l d) = Inl (EEException ''remote call failed'')"
    using fail_stop_process_date assms(2-4) by blast
  then show ?thesis using date_loop_append_failure [OF assms(1)] by simp
qed

lemma process_date_example_failure:
  "process_date example_failing_world example_ini example_overwrite_locals
     \<lparr>year = 2020, month = 1, day = 1\<rparr>
   = ([Log INFO ''Date: 2020-01-01'', CancelTask ''T1''], Inl (EEException ''remote call failed''))"
  by (simp add: process_date_def Let_def strftime_iso_def strftime_compact_def pad4_def pad2_def
      digit_def example_failing_world_def example_world_def example_ini_def
      example_overwrite_locals_def example_locals_def export_id_of_def asset_id_of_def
      bind_err_def reconcile_def then_step_remote)

theorem remote_failure_ends_the_run_witness:
  "date_loop example_failing_world example_ini example_overwrite_locals
     ([] @ \<lparr>year = 2020, month = 1, day = 1\<rparr> # [\<lparr>year = 2020, month = 1, day = 2\<rparr>])
   = ([Log INFO ''Date: 2020-01-01'', CancelTask ''T1''], Inl (EEException ''remote call failed''))"
proof -
  have a: "\<forall>x \<in> set []. snd (process_date example_failing_world example_ini
                                example_overwrite_locals x) = Inr ()"
    by simp
  have b: "CancelTask ''T1'' \<in> set (fst (process_date example_failing_world example_ini
             example_overwrite_locals \<lparr>year = 2020, month = 1, day = 1\<rparr>))"
    by (simp add: process_date_example_failure)
  have c: "is_mutation (CancelTask ''T1'')" by simp
  have d: "w_fails example_failing_world (CancelTask ''T1'')"
    by (simp add: example_failing_world_def)
  show ?thesis
    using remote_failure_ends_the_run [OF a b c d, of "[\<lparr>year = 2020, month = 1, day = 2\<rparr>]"]
    by (simp add: process_date_example_failure)
qed

text \<open>
  The claim as stated fails: the cancellation for 2020-01-01 fails, and the run over
  2020-01-01 and 2020-01-02 ends with that exception without reaching 2020-01-02.
\<close>

theorem run_does_not_continue_counterexample:
  "fst (date_loop example_failing_world example_ini example_overwrite_locals
          [\<lparr>year = 2020, month = 1, day = 1\<rparr>, \<lparr>year = 2020, month = 1, day = 2\<rparr>])
     = [Log INFO ''Date: 2020-01-01'', CancelTask ''T1'']
   \<and> snd (date_loop example_failing_world example_ini example_overwrite_locals
          [\<lparr>year = 2020, month = 1, day = 1\<rparr>, \<lparr>year = 2020, month = 1, day = 2\<rparr>])
     = Inl (EEException ''remote call failed'')
   \<and> Log INFO ''Date: 2020-01-02''
       \<notin> set (fst (date_loop example_failing_world example_ini example_overwrite_locals
          [\<lparr>year = 2020, month = 1, day = 1\<rparr>, \<lparr>year = 2020, month = 1, day = 2\<rparr>]))"
  by (simp add: process_date_example_failure)

subsection \<open>Running the loop a second time\<close>

lemma date_loop_Inr:
  assumes "date_loop w cfg l (d # ds) = (tr, Inr ())"
  shows "\<exists>tr1 tr2. process_date w cfg l d = (tr1, Inr ())
            \<and> date_loop w cfg l ds = (tr2, Inr ()) \<and> tr = tr1 @ tr2"
proof (cases "snd (process_date w cfg l d)")
  case (Inl e)
  then show ?thesis using assms by (simp add: then_step_def)
next
  case (Inr u)
  then have "process_date w cfg l d = (fst (process_date w cfg l d), Inr ())"
    by (simp add: prod_eq_iff)
  moreover have "date_loop w cfg l ds = (fst (date_loop w cfg l ds), Inr ())"
    and "tr = fst (process_date w cfg l d) @ fst (date_loop w cfg l ds)"
    using assms Inr by (auto simp: then_step_def prod_eq_iff)
  ultimately show ?thesis by blast
qed

text \<open>A date of a run without overwriting whose export is pending or present: nothing is called.\<close>

lemma process_date_skips:
  assumes "ini_export_dest cfg = ''ASSET''" and "\<not> overwrite_flag l"
      and "export_id_of cfg l d = Inr e"
      and "e \<in> dom (tasks l) \<or> asset_id_of l d \<in> set (asset_list l)"
  shows "(\<forall>ev \<in> set (fst (process_date w cfg l d)). is_log ev)
         \<and> snd (process_date w cfg l d) = Inr ()"
  using assms by (auto simp: process_date_def Let_def reconcile_def upper_ASSET)

lemma then_step_Inr_D:
  assumes "then_step m f = (tr, Inr y)"
  shows "\<exists>x tr1 tr2. m = (tr1, Inr x) \<and> f x = (tr2, Inr y) \<and> tr = tr1 @ tr2"
proof (cases "snd m")
  case (Inl e)
  then show ?thesis using assms by (simp add: then_step_def)
next
  case (Inr x)
  then have "m = (fst m, Inr x)" by (simp add: prod_eq_iff)
  moreover have "f x = (fst (f x), Inr y)" "tr = fst m @ fst (f x)"
    using assms Inr by (auto simp: then_step_def prod_eq_iff)
  ultimately show ?thesis by blast
qed

lemma reconcile_overwrite_decision:
  assumes "overwrite_flag l" and "snd (reconcile w cfg l e a) = Inr dec"
  shows "dec = Submit"
  using assms
  by (cases a; cases "tasks l e")
     (auto simp: reconcile_def then_step_remote split: if_splits)

lemma reconcile_no_overwrite:
  assumes "ini_export_dest cfg = ''ASSET''" and "\<not> overwrite_flag l"
  shows "reconcile w cfg l e (Some a)
           = ret (if e \<in> dom (tasks l) \<or> a \<in> set (asset_list l) then Skip else Submit)"
  using assms by (auto simp: reconcile_def upper_ASSET)

lemma submit_starts_task:
  assumes "ini_export_dest cfg = ''ASSET''" and "submit w cfg l e (Some a) = (tr, Inr u)"
  shows "StartTask \<lparr>description = e, assetId = a, crs = export_crs l,
                     crsTransform = export_geo l, dimensions = export_shape l\<rparr> \<in> set tr"
  using assms by (auto simp: submit_def ee_task_start_def delay_task_def then_step_remote split: if_splits)

lemma process_date_calendar_skip:
  assumes "(month_list l \<noteq> [] \<and> month d \<notin> set (month_list l))
           \<or> (year_list l \<noteq> [] \<and> year d \<notin> set (year_list l))
           \<or> strftime_iso (w_today w) \<le> strftime_iso d
           \<or> strftime_iso d < ''1984-03-23''"
  shows "\<forall>ev \<in> set (fst (process_date w cfg l d)). is_log ev"
  using assms by (auto simp: process_date_def Let_def)

lemma process_date_body:
  assumes "ini_export_dest cfg = ''ASSET''" and "export_id_of cfg l d = Inr e"
      and "\<not> ((month_list l \<noteq> [] \<and> month d \<notin> set (month_list l))
           \<or> (year_list l \<noteq> [] \<and> year d \<notin> set (year_list l))
           \<or> strftime_iso (w_today w) \<le> strftime_iso d
           \<or> strftime_iso d < ''1984-03-23'')"
  shows "process_date w cfg l d =
           then_step (emit (Log INFO (''Date: '' @ strftime_iso d)))
             (\<lambda>_. then_step (reconcile w cfg l e (Some (asset_id_of l d)))
                (\<lambda>dec. case dec of Skip \<Rightarrow> ret ()
                        | Submit \<Rightarrow> submit w cfg l e (Some (asset_id_of l d))))"
  using assms by (auto simp: process_date_def Let_def simp del: then_step_emit)

text \<open>A date of a completed run that the calendar lets through is found pending or present, or is submitted.\<close>

lemma process_date_outcome:
  assumes dest: "ini_export_dest cfg = ''ASSET''"
      and run: "process_date w cfg l d = (tr, Inr ())"
      and cal: "\<not> ((month_list l \<noteq> [] \<and> month d \<notin> set (month_list l))
           \<or> (year_list l \<noteq> [] \<and> year d \<notin> set (year_list l))
           \<or> strftime_iso (w_today w) \<le> strftime_iso d
           \<or> strftime_iso d < ''1984-03-23'')"
  shows "\<exists>e. export_id_of cfg l d = Inr e
           \<and> (e \<in> dom (tasks l) \<or> asset_id_of l d \<in> set (asset_list l)
              \<or> (\<exists>t. StartTask t \<in> set tr \<and> description t = e
                    \<and> assetId t = asset_id_of l d))"
proof -
  obtain e where eid: "export_id_of cfg l d = Inr e"
    using run cal by (cases "export_id_of cfg l d") (auto simp: process_date_def Let_def)
  let ?a = "asset_id_of l d"
  let ?t = "\<lparr>description = e, assetId = ?a, crs = export_crs l,
              crsTransform = export_geo l, dimensions = export_shape l\<rparr>"
  let ?rest = "then_step (reconcile w cfg l e (Some ?a))
          (\<lambda>dec. case dec of Skip \<Rightarrow> ret () | Submit \<Rightarrow> submit w cfg l e (Some ?a))"
  have pd: "process_date w cfg l d
              = (Log INFO (''Date: '' @ strftime_iso d) # fst ?rest, snd ?rest)"
    unfolding process_date_body [OF dest eid cal] by simp
  have rest: "?rest = (tl tr, Inr ())" and tr_nonempty: "tr \<noteq> []"
    using run unfolding pd by (auto simp: prod_eq_iff)
  obtain dec tr1 tr2 where r: "reconcile w cfg l e (Some ?a) = (tr1, Inr dec)"
    and s: "(case dec of Skip \<Rightarrow> ret () | Submit \<Rightarrow> submit w cfg l e (Some ?a)) = (tr2, Inr ())"
    and t: "tl tr = tr1 @ tr2"
    using then_step_Inr_D [OF rest] by blast
  have "e \<in> dom (tasks l) \<or> ?a \<in> set (asset_list l)
          \<or> (\<exists>t. StartTask t \<in> set tr \<and> description t = e \<and> assetId t = ?a)"
  proof (cases dec)
    case Submit
    then have "StartTask ?t \<in> set tr2" using s submit_starts_task [OF dest] by simp
    then have "StartTask ?t \<in> set (tl tr)" using t by simp
    then have "StartTask ?t \<in> set tr" using tr_nonempty by (cases tr) auto
    moreover have "description ?t = e" "assetId ?t = ?a" by simp_all
    ultimately show ?thesis by blast
  next
    case Skip
    have sr: "snd (reconcile w cfg l e (Some ?a)) = Inr Skip"
      using r Skip by simp
    have no: "\<not> overwrite_flag l"
      using reconcile_overwrite_decision [of l w cfg e "Some ?a" Skip] sr by auto
    have "e \<in> dom (tasks l) \<or> ?a \<in> set (asset_list l)"
      using sr unfolding reconcile_no_overwrite [OF dest no]
      by (simp split: if_splits)
    then show ?thesis by blast
  qed
  then show ?thesis using eid by blast
qed

text \<open>
  Claim C5, as the code has it. A first run of the loop over \<open>dates\<close> completes; at
  the second run every task it started is still pending or has left its asset, and so
  is every export that was pending or present at the first run; and every date the
  first run left out as not yet supported is left out by the second run too (as when
  both runs take place on the same day). Then the second run, without the overwrite
  flag, over the same dates, starts no task (it calls nothing and only logs) and
  completes.
\<close>

theorem second_run_submits_nothing:
  assumes dest: "ini_export_dest cfg = ''ASSET''"
      and first: "date_loop w cfg l dates = (tr, Inr ())"
      and succeeded: "\<forall>t. StartTask t \<in> set tr \<longrightarrow>
                        description t \<in> dom tasks2 \<or> assetId t \<in> set assets2"
      and kept: "\<forall>d \<in> set dates. \<forall>e. export_id_of cfg l d = Inr e \<longrightarrow>
                   e \<in> dom (tasks l) \<or> asset_id_of l d \<in> set (asset_list l) \<longrightarrow>
                   e \<in> dom tasks2 \<or> asset_id_of l d \<in> set assets2"
      and later: "\<forall>d \<in> set dates. strftime_iso (w_today w) \<le> strftime_iso d \<longrightarrow>
                    strftime_iso (w_today w2) \<le> strftime_iso d"
  shows "(\<forall>ev \<in> set (fst (date_loop w2 cfg
              (l\<lparr>overwrite_flag := False, tasks := tasks2, asset_list := assets2\<rparr>) dates)).
            is_log ev \<and> \<not> is_submit ev)
         \<and> snd (date_loop w2 cfg
              (l\<lparr>overwrite_flag := False, tasks := tasks2, asset_list := assets2\<rparr>) dates)
             = Inr ()"
  using first succeeded kept later
proof (induction dates arbitrary: tr)
  case Nil
  then show ?case by simp
next
  case (Cons d ds)
  let ?l2 = "l\<lparr>overwrite_flag := False, tasks := tasks2, asset_list := assets2\<rparr>"
  obtain tr1 tr2 where d1: "process_date w cfg l d = (tr1, Inr ())"
    and ds1: "date_loop w cfg l ds = (tr2, Inr ())" and tr: "tr = tr1 @ tr2"
    using date_loop_Inr [OF Cons.prems(1)] by blast
  have ih: "(\<forall>ev \<in> set (fst (date_loop w2 cfg ?l2 ds)). is_log ev \<and> \<not> is_submit ev)
            \<and> snd (date_loop w2 cfg ?l2 ds) = Inr ()"
    using Cons.IH [OF ds1] Cons.prems(2,3,4) tr by simp
  have same_id: "export_id_of cfg ?l2 d = export_id_of cfg l d"
    and same_asset: "asset_id_of ?l2 d = asset_id_of l d"
    by (simp_all add: export_id_of_def asset_id_of_def)
  have here: "(\<forall>ev \<in> set (fst (process_date w2 cfg ?l2 d)). is_log ev)
              \<and> snd (process_date w2 cfg ?l2 d) = Inr ()"
  proof (cases "(month_list l \<noteq> [] \<and> month d \<notin> set (month_list l))
           \<or> (year_list l \<noteq> [] \<and> year d \<notin> set (year_list l))
           \<or> strftime_iso (w_today w) \<le> strftime_iso d
           \<or> strftime_iso d < ''1984-03-23''")
    case True
    then have "(month_list l \<noteq> [] \<and> month d \<notin> set (month_list l))
           \<or> (year_list l \<noteq> [] \<and> year d \<notin> set (year_list l))
           \<or> strftime_iso (w_today w2) \<le> strftime_iso d
           \<or> strftime_iso d < ''1984-03-23''"
      using Cons.prems(4) by auto
    then show ?thesis by (auto simp: process_date_def Let_def)
  next
    case False
    obtain e where e: "export_id_of cfg l d = Inr e"
      and "e \<in> dom (tasks l) \<or> asset_id_of l d \<in> set (asset_list l)
              \<or> (\<exists>t. StartTask t \<in> set tr1 \<and> description t = e
                    \<and> assetId t = asset_id_of l d)"
      using process_date_outcome [OF dest d1 False] by blast
    then have listed: "e \<in> dom tasks2 \<or> asset_id_of l d \<in> set assets2"
      using Cons.prems(2,3) tr by auto
    have e2: "export_id_of cfg ?l2 d = Inr e"
      using e same_id by simp
    have l2: "e \<in> dom (tasks ?l2) \<or> asset_id_of ?l2 d \<in> set (asset_list ?l2)"
      using listed same_asset by simp
    have no: "\<not> overwrite_flag ?l2" by simp
    show ?thesis
      using process_date_skips [OF dest no e2 l2] by simp
  qed
  have log_not_submit: "is_log ev \<Longrightarrow> \<not> is_submit ev" for ev
    by (cases ev) simp_all
  show ?case
    using here ih log_not_submit
    by (auto simp: then_step_def split: sum.splits)
qed

lemma example_first_run:
  "date_loop example_world example_ini example_locals
     [\<lparr>year = 2020, month = 1, day = 1\<rparr>, \<lparr>year = 2020, month = 1, day = 2\<rparr>]
   = ([Log INFO ''Date: 2020-01-01'',
       StartTask \<lparr>description = ''tcorr_20200101'',
                  assetId = ''tcorr/daymet_median_v2_daily/20200101'', crs = ''EPSG:4326'',
                  crsTransform = [1, 0, 0, 0, - 1, 0], dimensions = (1, 2)\<rparr>,
       DelayTask 0,
       Log INFO ''Date: 2020-01-02'',
       StartTask \<lparr>description = ''tcorr_20200102'',
                  assetId = ''tcorr/daymet_median_v2_daily/20200102'', crs = ''EPSG:4326'',
                  crsTransform = [1, 0, 0, 0, - 1, 0], dimensions = (1, 2)\<rparr>,
       DelayTask 0],
      Inr ())"
  by (simp add: process_date_def Let_def strftime_iso_def strftime_compact_def pad4_def pad2_def
      digit_def example_world_def example_ini_def example_locals_def export_id_of_def
      asset_id_of_def bind_err_def reconcile_def submit_def ee_task_start_def delay_task_def then_step_remote upper_ASSET)

lemma example_ids:
  "export_id_of example_ini example_locals \<lparr>year = 2020, month = 1, day = 1\<rparr>
     = Inr ''tcorr_20200101''"
  "export_id_of example_ini example_locals \<lparr>year = 2020, month = 1, day = 2\<rparr>
     = Inr ''tcorr_20200102''"
  "asset_id_of example_locals \<lparr>year = 2020, month = 1, day = 1\<rparr>
     = ''tcorr/daymet_median_v2_daily/20200101''"
  "asset_id_of example_locals \<lparr>year = 2020, month = 1, day = 2\<rparr>
     = ''tcorr/daymet_median_v2_daily/20200102''"
  by (simp_all add: export_id_of_def asset_id_of_def example_ini_def example_locals_def
      strftime_compact_def pad4_def pad2_def digit_def bind_err_def)

theorem second_run_submits_nothing_witness:
  "snd (date_loop example_world example_ini example_locals
          [\<lparr>year = 2020, month = 1, day = 1\<rparr>, \<lparr>year = 2020, month = 1, day = 2\<rparr>]) = Inr ()
   \<and> length (filter is_submit (fst (date_loop example_world example_ini example_locals
          [\<lparr>year = 2020, month = 1, day = 1\<rparr>, \<lparr>year = 2020, month = 1, day = 2\<rparr>]))) = 2
   \<and> snd (date_loop example_later_world example_ini example_second_locals
          [\<lparr>year = 2020, month = 1, day = 1\<rparr>, \<lparr>year = 2020, month = 1, day = 2\<rparr>]) = Inr ()
   \<and> filter is_submit (fst (date_loop example_later_world example_ini example_second_locals
          [\<lparr>year = 2020, month = 1, day = 1\<rparr>, \<lparr>year = 2020, month = 1, day = 2\<rparr>])) = []"
proof -
  let ?dates = "[\<lparr>year = 2020, month = 1, day = 1\<rparr>, \<lparr>year = 2020, month = 1, day = 2\<rparr>]"
  let ?tasks2 = "map_of [(''tcorr_20200101'', ''T1'')]"
  let ?assets2 = "[''tcorr/daymet_median_v2_daily/20200102'']"
  have dest: "ini_export_dest example_ini = ''ASSET''"
    by (simp add: example_ini_def)
  have succeeded: "\<forall>t. StartTask t \<in> set (fst (date_loop example_world example_ini
                      example_locals ?dates)) \<longrightarrow>
                     description t \<in> dom ?tasks2 \<or> assetId t \<in> set ?assets2"
    unfolding example_first_run by auto
  have kept: "\<forall>d \<in> set ?dates. \<forall>e. export_id_of example_ini example_locals d = Inr e \<longrightarrow>
                e \<in> dom (tasks example_locals)
                  \<or> asset_id_of example_locals d \<in> set (asset_list example_locals) \<longrightarrow>
                e \<in> dom ?tasks2 \<or> asset_id_of example_locals d \<in> set ?assets2"
    by (simp add: example_ids)
  have second: "example_locals\<lparr>overwrite_flag := False, tasks := ?tasks2, asset_list := ?assets2\<rparr>
                  = example_second_locals"
    by (simp add: example_second_locals_def)
  have first: "date_loop example_world example_ini example_locals ?dates
                 = (fst (date_loop example_world example_ini example_locals ?dates), Inr ())"
    unfolding example_first_run by simp
  have later: "\<forall>d \<in> set ?dates.
                 strftime_iso (w_today example_world) \<le> strftime_iso d \<longrightarrow>
                 strftime_iso (w_today example_later_world) \<le> strftime_iso d"
    by (simp add: example_world_def example_later_world_def strftime_iso_def pad4_def pad2_def
        digit_def)
  have "(\<forall>ev \<in> set (fst (date_loop example_later_world example_ini example_second_locals
                            ?dates)).
            is_log ev \<and> \<not> is_submit ev)
         \<and> snd (date_loop example_later_world example_ini example_second_locals ?dates) = Inr ()"
    using second_run_submits_nothing [OF dest first succeeded kept later] unfolding second .
  then show ?thesis
    unfolding example_first_run by (simp add: filter_empty_conv)
qed

lemma example_first_day_run:
  "date_loop example_first_day_world example_ini example_locals
     [\<lparr>year = 2020, month = 1, day = 1\<rparr>, \<lparr>year = 2020, month = 1, day = 2\<rparr>]
   = ([Log INFO ''Date: 2020-01-01'',
       StartTask \<lparr>description = ''tcorr_20200101'',
                  assetId = ''tcorr/daymet_median_v2_daily/20200101'', crs = ''EPSG:4326'',
                  crsTransform = [1, 0, 0, 0, - 1, 0], dimensions = (1, 2)\<rparr>,
       DelayTask 0,
       Log INFO ''Date: 2020-01-02'',
       Log INFO ''  Unsupported date, skipping''],
      Inr ())"
  by (simp add: process_date_def Let_def strftime_iso_def strftime_compact_def pad4_def pad2_def
      digit_def example_first_day_world_def example_world_def example_ini_def example_locals_def
      export_id_of_def asset_id_of_def bind_err_def reconcile_def submit_def ee_task_start_def
      delay_task_def then_step_remote upper_ASSET)

lemma example_next_day_run:
  "date_loop example_next_day_world example_ini example_pending_locals
     [\<lparr>year = 2020, month = 1, day = 1\<rparr>, \<lparr>year = 2020, month = 1, day = 2\<rparr>]
   = ([Log INFO ''Date: 2020-01-01'',
       Log INFO ''Date: 2020-01-02'',
       StartTask \<lparr>description = ''tcorr_20200102'',
                  assetId = ''tcorr/daymet_median_v2_daily/20200102'', crs = ''EPSG:4326'',
                  crsTransform = [1, 0, 0, 0, - 1, 0], dimensions = (1, 2)\<rparr>,
       DelayTask 0],
      Inr ())"
  by (simp add: process_date_def Let_def strftime_iso_def strftime_compact_def pad4_def pad2_def
      digit_def example_next_day_world_def example_world_def example_ini_def example_locals_def
      example_pending_locals_def
      export_id_of_def asset_id_of_def bind_err_def reconcile_def submit_def ee_task_start_def
      delay_task_def then_step_remote upper_ASSET)

text \<open>
  The claim as stated fails when the second run takes place on a later day: the first
  run, on 2020-01-02, starts the task of 2020-01-01 and leaves 2020-01-02 out as not yet
  supported; the second run, on 2020-01-03 without the overwrite flag and with that task
  still pending, starts a task for 2020-01-02.
\<close>

theorem next_day_rerun_submits_counterexample:
  "date_loop example_first_day_world example_ini example_locals
     [\<lparr>year = 2020, month = 1, day = 1\<rparr>, \<lparr>year = 2020, month = 1, day = 2\<rparr>]
   = ([Log INFO ''Date: 2020-01-01'',
       StartTask \<lparr>description = ''tcorr_20200101'',
                  assetId = ''tcorr/daymet_median_v2_daily/20200101'', crs = ''EPSG:4326'',
                  crsTransform = [1, 0, 0, 0, - 1, 0], dimensions = (1, 2)\<rparr>,
       DelayTask 0,
       Log INFO ''Date: 2020-01-02'',
       Log INFO ''  Unsupported date, skipping''],
      Inr ())
   \<and> tasks example_pending_locals ''tcorr_20200101'' = Some ''T1''
   \<and> overwrite_flag example_pending_locals = False
   \<and> filter is_submit (fst (date_loop example_next_day_world example_ini example_pending_locals
          [\<lparr>year = 2020, month = 1, day = 1\<rparr>, \<lparr>year = 2020, month = 1, day = 2\<rparr>]))
     = [StartTask \<lparr>description = ''tcorr_20200102'',
                  assetId = ''tcorr/daymet_median_v2_daily/20200102'', crs = ''EPSG:4326'',
                  crsTransform = [1, 0, 0, 0, - 1, 0], dimensions = (1, 2)\<rparr>]"
  unfolding example_first_day_run example_next_day_run
  by (simp add: example_pending_locals_def example_locals_def)

end
